theory Spec2Isabelle
  imports Main "HOL-Library.Word"
begin

unbundle bit_operations_syntax

section \<open>Machine integers and the fault bitmap (faults.h)\<close>

type_synonym u8 = "8 word"
type_synonym u16 = "16 word"
type_synonym u32 = "32 word"

text \<open>
  The enumerators of \<open>SYSTEM_FAULT_T\<close> that the regulators use, as bit positions of the
  32-bit \<open>system_faults\<close> bitmap.
\<close>

definition FAULT_SX1509_IO_EXPANDER_INIT_FAIL :: nat where
  "FAULT_SX1509_IO_EXPANDER_INIT_FAIL = 15"

definition FAULT_TANK_FILL_TIMEOUT :: nat where
  "FAULT_TANK_FILL_TIMEOUT = 16"

definition FAULT_TANK_LEVEL_SENSE_FAIL :: nat where
  "FAULT_TANK_LEVEL_SENSE_FAIL = 17"

text \<open>\<open>#define FAULT_SET(x) system_faults = (system_faults | ((uint32_t)1 << x))\<close>\<close>

definition FAULT_SET :: "nat \<Rightarrow> u32 \<Rightarrow> u32" where
  "FAULT_SET x system_faults = system_faults OR push_bit x 1"

text \<open>\<open>#define FAULT_ACTIVE(x) ((system_faults & (uint32_t)1 << x) != 0)\<close>\<close>

definition FAULT_ACTIVE :: "nat \<Rightarrow> u32 \<Rightarrow> bool" where
  "FAULT_ACTIVE x system_faults \<longleftrightarrow> system_faults AND push_bit x 1 \<noteq> 0"

section \<open>RangeUtil: the three-sample history and its median (RangeUtil.h)\<close>

text \<open>
  The fields of \<open>RangeUtil\<close> that \<open>process_reading\<close> touches. \<open>_range_history\<close> is a
  C array of \<open>HISTORY_SIZE = 3\<close> samples, index 0 the newest; the loop indices and the
  stored \<open>_median_index\<close> only ever hold 0, 1 or 2 and are natural numbers here.
\<close>

record RangeUtil =
  range_history :: "u16 list"
  median_index :: nat

definition HISTORY_SIZE :: nat where
  "HISTORY_SIZE = 3"

text \<open>
  One iteration of the first loop of \<open>process_reading\<close>; the accumulator is
  \<open>(max_range, max_range_index, min_range, min_range_index)\<close>.
\<close>

fun extremes_step :: "u16 list \<Rightarrow> u16 \<times> nat \<times> u16 \<times> nat \<Rightarrow> nat \<Rightarrow> u16 \<times> nat \<times> u16 \<times> nat" where
  "extremes_step h (max_range, max_range_index, min_range, min_range_index) i =
     (let (max_range, max_range_index) =
            (if h ! i > max_range then (h ! i, i) else (max_range, max_range_index));
          (min_range, min_range_index) =
            (if h ! i < min_range then (h ! i, i) else (min_range, min_range_index))
      in (max_range, max_range_index, min_range, min_range_index))"

text \<open>The whole first loop, \<open>for (int i = 0; i < HISTORY_SIZE; i++)\<close>, from the initial locals.\<close>

definition find_extremes :: "u16 list \<Rightarrow> u16 \<times> nat \<times> u16 \<times> nat" where
  "find_extremes h = foldl (extremes_step h) (0, 0, 0xFFFF, 0) [0 ..< HISTORY_SIZE]"

text \<open>
  The second loop: the first index that is neither the minimum's nor the maximum's is
  stored and the loop breaks; when no index qualifies \<open>_median_index\<close> keeps its value.
\<close>

fun median_scan :: "nat list \<Rightarrow> nat \<Rightarrow> nat \<Rightarrow> nat \<Rightarrow> nat" where
  "median_scan [] min_range_index max_range_index median_idx = median_idx"
| "median_scan (i # rest) min_range_index max_range_index median_idx =
     (if i \<noteq> min_range_index \<and> i \<noteq> max_range_index then i
      else median_scan rest min_range_index max_range_index median_idx)"

definition process_reading :: "u16 \<Rightarrow> RangeUtil \<Rightarrow> u16 \<times> RangeUtil" where
  "process_reading reading r =
     (let h = range_history r;
          h = h[2 := h ! 1];
          h = h[1 := h ! 0];
          h = h[0 := reading];
          (max_range, max_range_index, min_range, min_range_index) = find_extremes h;
          m = median_scan [0 ..< HISTORY_SIZE] min_range_index max_range_index (median_index r)
      in (h ! m, r\<lparr>range_history := h, median_index := m\<rparr>))"

definition Get_Newest_Reading :: "RangeUtil \<Rightarrow> u16" where
  "Get_Newest_Reading r = range_history r ! 0"

definition Get_Median_Reading :: "RangeUtil \<Rightarrow> u16" where
  "Get_Median_Reading r = range_history r ! median_index r"

text \<open>
  The specification's side of the median claim: the middle value of three by numeric
  order, and the first position at which a value occurs in the history.
\<close>

definition middle_of_three :: "u16 list \<Rightarrow> u16" where
  "middle_of_three h = sort h ! 1"

definition first_index_of :: "u16 \<Rightarrow> u16 list \<Rightarrow> nat" where
  "first_index_of v h = length (takeWhile (\<lambda>x. x \<noteq> v) h)"

definition first_seen_max :: "u16 list \<Rightarrow> nat" where
  "first_seen_max h = first_index_of (Max (set h)) h"

definition first_seen_min :: "u16 list \<Rightarrow> nat" where
  "first_seen_min h = first_index_of (Min (set h)) h"


section \<open>The environment shared by the regulators\<close>

text \<open>
  What the regulators observe and change outside their own fields: the value \<open>millis()\<close>
  returns while a call runs, the global \<open>system_faults\<close> bitmap, and the SX1509 expander
  behind the \<open>_io_expander\<close> handle, as the level last written to each output pin by
  \<open>digitalWrite\<close> and the level \<open>digitalRead\<close> returns for each input pin. Pins are
  addressed by number, so two handles with the same number are the same pin. Text
  written to \<open>Serial\<close> is not modelled.
\<close>

record world =
  millis :: u32
  system_faults :: u32
  pin_out :: "u8 \<Rightarrow> bool"
  pin_in :: "u8 \<Rightarrow> bool"

abbreviation (input) HIGH :: bool where "HIGH \<equiv> True"
abbreviation (input) LOW :: bool where "LOW \<equiv> False"

definition digitalWrite :: "u8 \<Rightarrow> bool \<Rightarrow> world \<Rightarrow> world" where
  "digitalWrite pin level w = w\<lparr>pin_out := (pin_out w)(pin := level)\<rparr>"

definition digitalRead :: "u8 \<Rightarrow> world \<Rightarrow> bool" where
  "digitalRead pin w = pin_in w pin"

text \<open>
  An \<open>elapsedMillis\<close> counter stores the \<open>millis()\<close> value at which it read zero; reading
  it gives \<open>millis() - ms\<close> in 32-bit unsigned arithmetic, and assigning 0 stores the
  current \<open>millis()\<close>.
\<close>

type_synonym elapsedMillis = u32

definition elapsed :: "world \<Rightarrow> elapsedMillis \<Rightarrow> u32" where
  "elapsed w ms = millis w - ms"

definition restart :: "world \<Rightarrow> elapsedMillis" where
  "restart w = millis w - 0"

section \<open>ColumnManager (ColumnManager.h)\<close>

datatype COLUMN_STATE_TYPE_T =
  COLUMN_IDLE | COLUMN_DRAIN_ACTIVE | COLUMN_DRAIN_SETTLE | COLUMN_FILL_ACTIVE |
  COLUMN_FILL_SETTLE | COLUMN_MANUAL_DRAIN | COLUMN_MANUAL_FILL | COLUMN_ERROR_STATE

datatype CONTROL_ERROR_STATE_TYPE_T =
  CONTROL_ERROR_DEADBAND | CONTROL_ERROR_POSITIVE | CONTROL_ERROR_NEGATIVE

text \<open>
  The private fields of the class. \<open>_state\<close>, \<open>_time_in_current_state\<close>,
  \<open>_request_manual_fill\<close> and \<open>_manual_fill_period\<close> also exist in \<open>TankManager\<close> and
  carry the prefix \<open>col_\<close> here.
\<close>

record ColumnManager =
  feed_valve_actuator_pin :: u8
  drain_valve_actuator_pin :: u8
  column_num :: u8
  setpoint_mm :: u16
  elevation_lower_limit :: u16
  elevation_upper_limit :: u16
  elevation_mm :: u16
  setpoint_deadband :: u16
  regulator_enable :: bool
  logging_enable :: bool
  col_state :: COLUMN_STATE_TYPE_T
  col_time_in_current_state :: elapsedMillis
  manual_drain_period :: u32
  col_manual_fill_period :: u32
  drain_dwell_period :: u32
  fill_dwell_period :: u32
  max_column_drain_period :: u32
  max_column_fill_period :: u32
  col_request_manual_fill :: bool
  request_manual_drain :: bool
  control_error_state :: CONTROL_ERROR_STATE_TYPE_T

text \<open>
  \<open>control_loop_update\<close>: \<open>int16_t delta = _elevation_mm - _setpoint_mm\<close> keeps the low
  16 bits of the difference and reads them as two's complement; \<open>abs(delta)\<close> and the
  comparison with the unsigned deadband are done in 32-bit \<open>int\<close>, where neither can
  overflow.
\<close>

definition control_loop_update :: "ColumnManager \<Rightarrow> CONTROL_ERROR_STATE_TYPE_T" where
  "control_loop_update c =
     (let delta = sint (elevation_mm c - setpoint_mm c) in
      if \<bar>delta\<bar> \<le> uint (setpoint_deadband c) then CONTROL_ERROR_DEADBAND
      else if delta > 0 then CONTROL_ERROR_POSITIVE
      else CONTROL_ERROR_NEGATIVE)"

text \<open>The three valve commands. The pin tests \<open>pin >= 0\<close> are on \<open>uint8_t\<close> values.\<close>

definition start_filling :: "ColumnManager \<Rightarrow> world \<Rightarrow> world" where
  "start_filling c w =
     (let w = (if feed_valve_actuator_pin c \<ge> 0
               then digitalWrite (feed_valve_actuator_pin c) HIGH w else w);
          w = (if drain_valve_actuator_pin c \<ge> 0
               then digitalWrite (drain_valve_actuator_pin c) LOW w else w)
      in w)"

definition start_draining :: "ColumnManager \<Rightarrow> world \<Rightarrow> world" where
  "start_draining c w =
     (if \<not> FAULT_ACTIVE FAULT_SX1509_IO_EXPANDER_INIT_FAIL (system_faults w) then
        (let w = (if feed_valve_actuator_pin c \<ge> 0
                  then digitalWrite (feed_valve_actuator_pin c) LOW w else w);
             w = (if drain_valve_actuator_pin c \<ge> 0
                  then digitalWrite (drain_valve_actuator_pin c) HIGH w else w)
         in w)
      else w)"

definition stop_flows :: "ColumnManager \<Rightarrow> world \<Rightarrow> world" where
  "stop_flows c w =
     (if \<not> FAULT_ACTIVE FAULT_SX1509_IO_EXPANDER_INIT_FAIL (system_faults w) then
        (let w = (if feed_valve_actuator_pin c \<ge> 0
                  then digitalWrite (feed_valve_actuator_pin c) LOW w else w);
             w = (if drain_valve_actuator_pin c \<ge> 0
                  then digitalWrite (drain_valve_actuator_pin c) LOW w else w)
         in w)
      else w)"

text \<open>
  The constructor: the field initialisers of the class, the six constructor arguments,
  and a final \<open>stop_flows()\<close>. The \<open>elapsedMillis\<close> member starts at the construction
  time.
\<close>

definition ColumnManager_init ::
    "u8 \<Rightarrow> u8 \<Rightarrow> u8 \<Rightarrow> u16 \<Rightarrow> u16 \<Rightarrow> world \<Rightarrow> world \<times> ColumnManager" where
  "ColumnManager_init num feed_pin drain_pin lower_limit upper_limit w =
     (let c = \<lparr>feed_valve_actuator_pin = feed_pin,
               drain_valve_actuator_pin = drain_pin,
               column_num = num,
               setpoint_mm = 150,
               elevation_lower_limit = lower_limit,
               elevation_upper_limit = upper_limit,
               elevation_mm = 150,
               setpoint_deadband = 4,
               regulator_enable = False,
               logging_enable = False,
               col_state = COLUMN_IDLE,
               col_time_in_current_state = millis w,
               manual_drain_period = 2000,
               col_manual_fill_period = 2000,
               drain_dwell_period = 1000,
               fill_dwell_period = 1000,
               max_column_drain_period = 60000,
               max_column_fill_period = 60000,
               col_request_manual_fill = False,
               request_manual_drain = False,
               control_error_state = CONTROL_ERROR_DEADBAND\<rparr>
      in (stop_flows c w, c))"

definition ColumnManager_Get_State :: "ColumnManager \<Rightarrow> COLUMN_STATE_TYPE_T" where
  "ColumnManager_Get_State c = col_state c"

definition Get_Control_Error_State :: "ColumnManager \<Rightarrow> CONTROL_ERROR_STATE_TYPE_T" where
  "Get_Control_Error_State c = control_error_state c"

definition ColumnManager_Set_Regulator_Enable :: "bool \<Rightarrow> ColumnManager \<Rightarrow> ColumnManager" where
  "ColumnManager_Set_Regulator_Enable en c = c\<lparr>regulator_enable := en\<rparr>"

definition Get_Target_Setpoint_MM :: "ColumnManager \<Rightarrow> u16" where
  "Get_Target_Setpoint_MM c = setpoint_mm c"

definition Set_Elevation_Reading_MM :: "u16 \<Rightarrow> ColumnManager \<Rightarrow> bool \<times> ColumnManager" where
  "Set_Elevation_Reading_MM e c = (False, c\<lparr>elevation_mm := e\<rparr>)"

definition Manual_Drain :: "u32 \<Rightarrow> ColumnManager \<Rightarrow> bool \<times> ColumnManager" where
  "Manual_Drain period c = (False, c\<lparr>manual_drain_period := period, request_manual_drain := True\<rparr>)"

definition ColumnManager_Manual_Fill :: "u32 \<Rightarrow> ColumnManager \<Rightarrow> bool \<times> ColumnManager" where
  "ColumnManager_Manual_Fill period c =
     (False, c\<lparr>col_manual_fill_period := period, col_request_manual_fill := True\<rparr>)"


text \<open>
  \<open>Update\<close>, in the order of its body. First the two arguments are stored and the
  setpoint is clamped (lines 171 to 179).
\<close>

definition Update_store_inputs :: "u16 \<Rightarrow> u16 \<Rightarrow> ColumnManager \<Rightarrow> ColumnManager" where
  "Update_store_inputs current_elevation_mm new_setpoint_mm c =
     (let c = c\<lparr>elevation_mm := current_elevation_mm, setpoint_mm := new_setpoint_mm\<rparr>;
          c = (if setpoint_mm c < elevation_lower_limit c
               then c\<lparr>setpoint_mm := elevation_lower_limit c\<rparr> else c);
          c = (if setpoint_mm c > elevation_upper_limit c
               then c\<lparr>setpoint_mm := elevation_upper_limit c\<rparr> else c)
      in c)"

text \<open>Then the pending manual requests are taken, fill before drain (lines 184 to 205).\<close>

definition Update_manual_requests :: "world \<Rightarrow> ColumnManager \<Rightarrow> ColumnManager" where
  "Update_manual_requests w c =
     (let c = (if col_request_manual_fill c
               then c\<lparr>col_request_manual_fill := False,
                      col_state := COLUMN_MANUAL_FILL,
                      col_time_in_current_state := restart w\<rparr>
               else c);
          c = (if request_manual_drain c
               then c\<lparr>request_manual_drain := False,
                      col_state := COLUMN_MANUAL_DRAIN,
                      col_time_in_current_state := restart w\<rparr>
               else c)
      in c)"

text \<open>
  The \<open>switch (_state)\<close> of lines 211 to 375, one case per state; the result is the
  local \<open>busy\<close>, the environment and the object.
\<close>

definition Update_switch :: "world \<Rightarrow> ColumnManager \<Rightarrow> bool \<times> world \<times> ColumnManager" where
  "Update_switch w c =
     (case col_state c of
        COLUMN_IDLE \<Rightarrow>
          (let w = stop_flows c w in
           if regulator_enable c then
             if control_error_state c = CONTROL_ERROR_POSITIVE then
               (False, w, c\<lparr>col_state := COLUMN_FILL_ACTIVE,
                              col_time_in_current_state := restart w\<rparr>)
             else if control_error_state c = CONTROL_ERROR_NEGATIVE then
               (False, w, c\<lparr>col_state := COLUMN_DRAIN_ACTIVE,
                              col_time_in_current_state := restart w\<rparr>)
             else (False, w, c)
           else (False, w, c))
      | COLUMN_DRAIN_ACTIVE \<Rightarrow>
          (if \<not> regulator_enable c then
             (False, w, c\<lparr>col_state := COLUMN_DRAIN_SETTLE,
                            col_time_in_current_state := restart w\<rparr>)
           else if control_error_state c \<noteq> CONTROL_ERROR_NEGATIVE then
             (let w = stop_flows c w in
              (False, w, c\<lparr>col_state := COLUMN_DRAIN_SETTLE,
                             col_time_in_current_state := restart w\<rparr>))
           else if elapsed w (col_time_in_current_state c) \<ge> max_column_drain_period c then
             (let w = stop_flows c w in
              (False, w, c\<lparr>col_state := COLUMN_ERROR_STATE,
                             col_time_in_current_state := restart w\<rparr>))
           else (True, start_draining c w, c))
      | COLUMN_DRAIN_SETTLE \<Rightarrow>
          (let w = stop_flows c w in
           if elapsed w (col_time_in_current_state c) \<ge> drain_dwell_period c then
             (False, w, c\<lparr>col_state := COLUMN_IDLE,
                            col_time_in_current_state := restart w\<rparr>)
           else (False, w, c))
      | COLUMN_FILL_ACTIVE \<Rightarrow>
          (if \<not> regulator_enable c then
             (False, w, c\<lparr>col_state := COLUMN_FILL_SETTLE,
                            col_time_in_current_state := restart w\<rparr>)
           else if control_error_state c \<noteq> CONTROL_ERROR_POSITIVE then
             (let w = stop_flows c w in
              (False, w, c\<lparr>col_state := COLUMN_FILL_SETTLE,
                             col_time_in_current_state := restart w\<rparr>))
           else if elapsed w (col_time_in_current_state c) \<ge> max_column_fill_period c then
             (let w = stop_flows c w in
              (False, w, c\<lparr>col_state := COLUMN_ERROR_STATE,
                             col_time_in_current_state := restart w\<rparr>))
           else (True, start_filling c w, c))
      | COLUMN_FILL_SETTLE \<Rightarrow>
          (let w = stop_flows c w in
           if elapsed w (col_time_in_current_state c) \<ge> fill_dwell_period c then
             (False, w, c\<lparr>col_state := COLUMN_IDLE,
                            col_time_in_current_state := restart w\<rparr>)
           else (False, w, c))
      | COLUMN_MANUAL_DRAIN \<Rightarrow>
          (let w = start_draining c w in
           if elapsed w (col_time_in_current_state c) \<ge> manual_drain_period c then
             (True, w, c\<lparr>col_state := COLUMN_IDLE\<rparr>)
           else (True, w, c))
      | COLUMN_MANUAL_FILL \<Rightarrow>
          (let w = start_filling c w in
           if elapsed w (col_time_in_current_state c) \<ge> col_manual_fill_period c then
             (True, w, c\<lparr>col_state := COLUMN_IDLE\<rparr>)
           else (True, w, c))
      | COLUMN_ERROR_STATE \<Rightarrow> (False, stop_flows c w, c))"

definition ColumnManager_Update ::
    "u16 \<Rightarrow> u16 \<Rightarrow> world \<times> ColumnManager \<Rightarrow> bool \<times> world \<times> ColumnManager" where
  "ColumnManager_Update current_elevation_mm new_setpoint_mm wc =
     (let w = fst wc;
          c = Update_store_inputs current_elevation_mm new_setpoint_mm (snd wc);
          c = Update_manual_requests w c;
          c = c\<lparr>control_error_state := control_loop_update c\<rparr>
      in Update_switch w c)"

section \<open>TankManager (TankManager.h)\<close>

datatype TANK_STATE_TYPE_T =
  TANK_IDLE | TANK_FILL_ACTIVE | TANK_FILL_SETTLE | TANK_MANUAL_FILL | TANK_FILL_TIMEOUT_FAULT

text \<open>
  The private fields of the class; the four names shared with \<open>ColumnManager\<close> carry
  the prefix \<open>tank_\<close>.
\<close>

record TankManager =
  feed_pump_drive_pin :: u8
  feed_tank_level_high_pin :: u8
  feed_tank_level_low_pin :: u8
  feed_tank_level_above_high :: bool
  feed_tank_level_above_low :: bool
  pump_active :: bool
  enable :: bool
  enable_logging :: bool
  tank_state :: TANK_STATE_TYPE_T
  tank_time_in_current_state :: elapsedMillis
  time_since_last_update :: elapsedMillis
  tank_request_manual_fill :: bool
  tank_manual_fill_period :: u32
  post_pump_settle_period :: u32

definition TANK_UPDATE_PERIOD_MSEC :: u32 where
  "TANK_UPDATE_PERIOD_MSEC = 10"

definition MAX_PUMP_FILL_TIME_MSEC :: u32 where
  "MAX_PUMP_FILL_TIME_MSEC = 30000"

definition start_pumping :: "world \<times> TankManager \<Rightarrow> world \<times> TankManager" where
  "start_pumping wt =
     (if feed_pump_drive_pin (snd wt) \<ge> 0
      then (digitalWrite (feed_pump_drive_pin (snd wt)) HIGH (fst wt), (snd wt)\<lparr>pump_active := True\<rparr>)
      else wt)"

definition stop_pumping :: "world \<times> TankManager \<Rightarrow> world \<times> TankManager" where
  "stop_pumping wt =
     (if feed_pump_drive_pin (snd wt) \<ge> 0
      then (digitalWrite (feed_pump_drive_pin (snd wt)) LOW (fst wt), (snd wt)\<lparr>pump_active := False\<rparr>)
      else wt)"

definition update_feed_tank_level_status :: "world \<Rightarrow> TankManager \<Rightarrow> TankManager" where
  "update_feed_tank_level_status w t =
     (let t = (if feed_tank_level_high_pin t \<ge> 0
               then t\<lparr>feed_tank_level_above_high := \<not> digitalRead (feed_tank_level_high_pin t) w\<rparr>
               else t);
          t = (if feed_tank_level_low_pin t \<ge> 0
               then t\<lparr>feed_tank_level_above_low := \<not> digitalRead (feed_tank_level_low_pin t) w\<rparr>
               else t)
      in t)"

definition TankManager_init :: "u8 \<Rightarrow> u8 \<Rightarrow> u8 \<Rightarrow> world \<Rightarrow> world \<times> TankManager" where
  "TankManager_init feed_pump_pin feed_tank_level_sense_low_pin feed_tank_level_sense_high_pin w =
     stop_pumping
       (w, \<lparr>feed_pump_drive_pin = feed_pump_pin,
             feed_tank_level_high_pin = feed_tank_level_sense_high_pin,
             feed_tank_level_low_pin = feed_tank_level_sense_low_pin,
             feed_tank_level_above_high = False,
             feed_tank_level_above_low = False,
             pump_active = False,
             enable = False,
             enable_logging = False,
             tank_state = TANK_IDLE,
             tank_time_in_current_state = millis w,
             time_since_last_update = millis w,
             tank_request_manual_fill = False,
             tank_manual_fill_period = 2000,
             post_pump_settle_period = 1000\<rparr>)"

definition TankManager_Get_State :: "TankManager \<Rightarrow> TANK_STATE_TYPE_T" where
  "TankManager_Get_State t = tank_state t"

definition Is_Feed_Tank_Above_High_Mark :: "TankManager \<Rightarrow> bool" where
  "Is_Feed_Tank_Above_High_Mark t = feed_tank_level_above_high t"

definition Is_Feed_Tank_Above_Low_Mark :: "TankManager \<Rightarrow> bool" where
  "Is_Feed_Tank_Above_Low_Mark t = feed_tank_level_above_low t"

definition TankManager_Set_Regulator_Enable :: "bool \<Rightarrow> TankManager \<Rightarrow> TankManager" where
  "TankManager_Set_Regulator_Enable en t = t\<lparr>enable := en\<rparr>"

definition TankManager_Manual_Fill :: "u32 \<Rightarrow> TankManager \<Rightarrow> bool \<times> TankManager" where
  "TankManager_Manual_Fill period t =
     (False, t\<lparr>tank_manual_fill_period := period, tank_request_manual_fill := True\<rparr>)"

definition Is_Pump_Active :: "TankManager \<Rightarrow> bool" where
  "Is_Pump_Active t = pump_active t"

text \<open>
  The \<open>switch (_state)\<close> of \<open>TankManager::Update\<close> (lines 155 to 239). Each case runs
  its statements in order on the pair of environment and object; the function returns
  that pair, and \<open>Update\<close> returns \<open>false\<close> after it.
\<close>

definition Tank_switch :: "world \<times> TankManager \<Rightarrow> world \<times> TankManager" where
  "Tank_switch wt =
     (case tank_state (snd wt) of
        TANK_IDLE \<Rightarrow>
          (let (w, t) = stop_pumping wt in
           if tank_request_manual_fill t then
             (w, t\<lparr>tank_request_manual_fill := False,
                    tank_state := TANK_MANUAL_FILL,
                    tank_time_in_current_state := restart w\<rparr>)
           else if enable t then
             if \<not> Is_Feed_Tank_Above_Low_Mark t then
               (w, t\<lparr>tank_state := TANK_FILL_ACTIVE,
                      tank_time_in_current_state := restart w\<rparr>)
             else (w, t)
           else (w, t))
      | TANK_FILL_ACTIVE \<Rightarrow>
          (let (w, t) = wt;
               t = (if \<not> enable t
                    then t\<lparr>tank_state := TANK_IDLE, tank_time_in_current_state := restart w\<rparr>
                    else t);
               (w, t) = start_pumping (w, t);
               (w, t) = (if Is_Feed_Tank_Above_High_Mark t then
                           (let (w, t) = stop_pumping (w, t) in
                            (w, t\<lparr>tank_state := TANK_FILL_SETTLE,
                                   tank_time_in_current_state := restart w\<rparr>))
                         else (w, t));
               w = (if elapsed w (tank_time_in_current_state t) \<ge> MAX_PUMP_FILL_TIME_MSEC
                    then w\<lparr>system_faults := FAULT_SET FAULT_TANK_FILL_TIMEOUT (system_faults w)\<rparr>
                    else w)
           in (w, t))
      | TANK_FILL_SETTLE \<Rightarrow>
          (let (w, t) = wt;
               t = (if \<not> enable t
                    then t\<lparr>tank_state := TANK_IDLE, tank_time_in_current_state := restart w\<rparr>
                    else t);
               (w, t) = stop_pumping (w, t)
           in if elapsed w (tank_time_in_current_state t) \<ge> post_pump_settle_period t then
                (w, t\<lparr>tank_state := TANK_IDLE, tank_time_in_current_state := restart w\<rparr>)
              else (w, t))
      | TANK_MANUAL_FILL \<Rightarrow>
          (let (w, t) = start_pumping wt in
           if elapsed w (tank_time_in_current_state t) \<ge> tank_manual_fill_period t then
             (w, t\<lparr>tank_state := TANK_IDLE, tank_time_in_current_state := restart w\<rparr>)
           else (w, t))
      | TANK_FILL_TIMEOUT_FAULT \<Rightarrow> wt)"

definition TankManager_Update :: "world \<times> TankManager \<Rightarrow> bool \<times> world \<times> TankManager" where
  "TankManager_Update wt =
     (let w = fst wt;
          t = update_feed_tank_level_status w (snd wt);
          w = (if Is_Feed_Tank_Above_Low_Mark t = False \<and> Is_Feed_Tank_Above_High_Mark t = True
               then w\<lparr>system_faults := FAULT_SET FAULT_TANK_LEVEL_SENSE_FAIL (system_faults w)\<rparr>
               else w)
      in if elapsed w (time_since_last_update t) < TANK_UPDATE_PERIOD_MSEC then (True, w, t)
         else (let t = t\<lparr>time_since_last_update := restart w\<rparr>
               in (False, Tank_switch (w, t))))"

section \<open>Auxiliary definitions for the proofs\<close>

text \<open>
  The first position of the largest and of the smallest of three samples, written with
  comparisons only; the proofs relate both the loop of \<open>process_reading\<close> and the
  specification's \<open>first_seen_max\<close> and \<open>first_seen_min\<close> to them.
\<close>

definition max_index3 :: "u16 \<Rightarrow> u16 \<Rightarrow> u16 \<Rightarrow> nat" where
  "max_index3 a b c = (if b \<le> a \<and> c \<le> a then 0 else if c \<le> b then 1 else 2)"

definition min_index3 :: "u16 \<Rightarrow> u16 \<Rightarrow> u16 \<Rightarrow> nat" where
  "min_index3 a b c = (if a \<le> b \<and> a \<le> c then 0 else if b \<le> c then 1 else 2)"

section \<open>Concrete runs used by the evaluations\<close>

text \<open>
  An environment with no fault, every output low and every input reading high (both
  level switches dry), and the passing of time between two calls.
\<close>

definition example_world :: world where
  "example_world =
     \<lparr>millis = 0, system_faults = 0, pin_out = (\<lambda>pin. LOW), pin_in = (\<lambda>pin. HIGH)\<rparr>"

definition at_millis :: "u32 \<Rightarrow> world \<Rightarrow> world" where
  "at_millis now w = w\<lparr>millis := now\<rparr>"

text \<open>
  A tank manager on pump pin 8 with the level switches on pins 0 and 1, constructed at
  time 0, enabled, and updated once at time 10: the tank is below the low mark, so this
  first call moves it from \<open>TANK_IDLE\<close> to \<open>TANK_FILL_ACTIVE\<close>.
\<close>

definition example_tank :: "world \<times> TankManager" where
  "example_tank = TankManager_init 8 0 1 example_world"

definition tank_filling :: "world \<times> TankManager" where
  "tank_filling =
     snd (TankManager_Update
            (at_millis 10 (fst example_tank),
             TankManager_Set_Regulator_Enable True (snd example_tank)))"

text \<open>The next accepted call comes 30000 ms later, with the high mark still dry.\<close>

definition tank_fill_timeout_call :: "bool \<times> world \<times> TankManager" where
  "tank_fill_timeout_call =
     TankManager_Update (at_millis 30010 (fst tank_filling), snd tank_filling)"

text \<open>Or a manual fill of 150 ms is requested while filling, and the next call comes at time 20.\<close>

definition tank_manual_request_call :: "bool \<times> world \<times> TankManager" where
  "tank_manual_request_call =
     TankManager_Update
       (at_millis 20 (fst tank_filling), snd (TankManager_Manual_Fill 150 (snd tank_filling)))"

text \<open>
  The hour column: feed valve on pin 15, drain valve on pin 11, setpoints limited to
  50 .. 305 mm, constructed at time 0.
\<close>

definition example_column :: "world \<times> ColumnManager" where
  "example_column = ColumnManager_init 1 15 11 50 305 example_world"

text \<open>
  What can happen to a column after its construction: \<open>Update\<close> is called at some
  time with some arguments, one of the other public methods is called, or some component
  executes \<open>FAULT_SET\<close>.
\<close>

datatype column_event =
  Update_At u32 u16 u16
| Set_Enable bool
| Request_Manual_Fill u32
| Request_Manual_Drain u32
| Elevation_Reading u16
| Fault_Raised nat

fun column_step :: "column_event \<Rightarrow> world \<times> ColumnManager \<Rightarrow> world \<times> ColumnManager" where
  "column_step (Update_At now e s) (w, c) = snd (ColumnManager_Update e s (at_millis now w, c))"
| "column_step (Set_Enable b) (w, c) = (w, ColumnManager_Set_Regulator_Enable b c)"
| "column_step (Request_Manual_Fill p) (w, c) = (w, snd (ColumnManager_Manual_Fill p c))"
| "column_step (Request_Manual_Drain p) (w, c) = (w, snd (Manual_Drain p c))"
| "column_step (Elevation_Reading e) (w, c) = (w, snd (Set_Elevation_Reading_MM e c))"
| "column_step (Fault_Raised x) (w, c) = (w\<lparr>system_faults := FAULT_SET x (system_faults w)\<rparr>, c)"

fun column_run :: "column_event list \<Rightarrow> world \<times> ColumnManager \<Rightarrow> world \<times> ColumnManager" where
  "column_run [] wc = wc"
| "column_run (ev # evs) wc = column_run evs (column_step ev wc)"

text \<open>
  Three \<open>Update\<close> calls with the elevation reading equal to the clamped setpoint; the
  second comes when the time in state reads its largest value.
\<close>

definition three_updates_at_setpoint :: "u16 \<Rightarrow> world \<times> ColumnManager \<Rightarrow> world \<times> ColumnManager" where
  "three_updates_at_setpoint s wc =
     (let e = setpoint_mm (Update_store_inputs s s (snd wc));
          wc1 = snd (ColumnManager_Update e s wc);
          late = col_time_in_current_state (snd wc1) - 1;
          wc2 = snd (ColumnManager_Update e s (at_millis late (fst wc1), snd wc1))
      in snd (ColumnManager_Update e s wc2))"

text \<open>
  The hour column enabled and updated at time 10 and at time 20 with a reading of
  300 mm and a setpoint of 150 mm: the first call moves it to \<open>COLUMN_FILL_ACTIVE\<close>,
  the second opens the feed valve.
\<close>

definition column_filling :: "world \<times> ColumnManager" where
  "column_filling =
     column_run [Set_Enable True, Update_At 10 300 150, Update_At 20 300 150] example_column"

text \<open>The calls that the evaluations below make on it.\<close>

definition column_fill_timeout_call :: "bool \<times> world \<times> ColumnManager" where
  "column_fill_timeout_call =
     ColumnManager_Update 300 150 (at_millis 60010 (fst column_filling), snd column_filling)"

definition column_disabled_call :: "bool \<times> world \<times> ColumnManager" where
  "column_disabled_call =
     ColumnManager_Update 300 150
       (at_millis 30 (fst column_filling),
        ColumnManager_Set_Regulator_Enable False (snd column_filling))"

text \<open>
  A manual fill of 150 ms requested on the constructed hour column and started by the
  \<open>Update\<close> at time 10; the next \<open>Update\<close> comes at time 200.
\<close>

definition column_manual_filling :: "world \<times> ColumnManager" where
  "column_manual_filling =
     column_run [Request_Manual_Fill 150, Update_At 10 150 150] example_column"

definition column_manual_fill_end_call :: "bool \<times> world \<times> ColumnManager" where
  "column_manual_fill_end_call =
     ColumnManager_Update 150 150 (at_millis 200 (fst column_manual_filling), snd column_manual_filling)"

text \<open>
  The same manual fill on a column constructed while
  \<open>FAULT_SX1509_IO_EXPANDER_INIT_FAIL\<close> is active.
\<close>

definition column_manual_filling_expander_failed :: "world \<times> ColumnManager" where
  "column_manual_filling_expander_failed =
     column_run [Request_Manual_Fill 150, Update_At 10 150 150]
       (ColumnManager_init 1 15 11 50 305
          (example_world\<lparr>system_faults := FAULT_SET FAULT_SX1509_IO_EXPANDER_INIT_FAIL 0\<rparr>))"

text \<open>A column whose lower setpoint limit is 0, called with a reading of 65535 mm.\<close>

definition column_wrap_call :: "bool \<times> world \<times> ColumnManager" where
  "column_wrap_call =
     ColumnManager_Update 65535 0 (ColumnManager_init 1 15 11 0 305 example_world)"

text \<open>
  The constructed hour column, enabled, and updated at time 10 with a reading of 100 mm
  and a setpoint of 150 mm.
\<close>

definition column_below_setpoint_call :: "bool \<times> world \<times> ColumnManager" where
  "column_below_setpoint_call =
     ColumnManager_Update 100 150
       (at_millis 10 (fst example_column),
        ColumnManager_Set_Regulator_Enable True (snd example_column))"

section \<open>Predicates used in the statements\<close>

text \<open>The feed valve and the drain valve of a column are not both commanded high.\<close>

definition valves_exclusive :: "world \<times> ColumnManager \<Rightarrow> bool" where
  "valves_exclusive wc \<longleftrightarrow>
     \<not> (pin_out (fst wc) (feed_valve_actuator_pin (snd wc)) = HIGH \<and>
        pin_out (fst wc) (drain_valve_actuator_pin (snd wc)) = HIGH)"

text \<open>The states whose case of the switch calls \<open>stop_flows()\<close> unconditionally.\<close>

definition stopping_state :: "COLUMN_STATE_TYPE_T \<Rightarrow> bool" where
  "stopping_state st \<longleftrightarrow>
     st = COLUMN_IDLE \<or> st = COLUMN_DRAIN_SETTLE \<or> st = COLUMN_FILL_SETTLE \<or>
     st = COLUMN_ERROR_STATE"

text \<open>
  The expander's init fault is active and the feed valve, on a pin of its own, is
  commanded high.
\<close>

definition feed_stuck_open :: "world \<times> ColumnManager \<Rightarrow> bool" where
  "feed_stuck_open wc \<longleftrightarrow>
     FAULT_ACTIVE FAULT_SX1509_IO_EXPANDER_INIT_FAIL (system_faults (fst wc)) \<and>
     feed_valve_actuator_pin (snd wc) \<noteq> drain_valve_actuator_pin (snd wc) \<and>
     pin_out (fst wc) (feed_valve_actuator_pin (snd wc)) = HIGH"

section \<open>The median of three\<close>

lemma upt_HISTORY_SIZE: "[0 ..< HISTORY_SIZE] = [0, 1, 2]"
  by (simp add: HISTORY_SIZE_def upt_rec)

lemma u16_less_top: "(x :: u16) < 0xFFFF \<longleftrightarrow> x \<noteq> 0xFFFF"
proof -
  have "unat x < 65536" using unsigned_less [of x] by simp
  then show ?thesis by (auto simp: word_less_nat_alt word_eq_iff_unsigned [where ?'a = nat])
qed

text \<open>
  Whatever the newest sample is, the first iteration of the loop leaves it as both the
  running maximum and the running minimum: a sample that does not replace the initial 0
  is 0, and one that does not replace the initial 0xFFFF is 0xFFFF.
\<close>

lemma extremes_step_first: "extremes_step h (0, 0, 0xFFFF, 0) 0 = (h ! 0, 0, h ! 0, 0)"
  by (simp add: word_gt_0 u16_less_top)

lemma find_extremes_unfold:
  "find_extremes h = extremes_step h (extremes_step h (h ! 0, 0, h ! 0, 0) 1) 2"
  by (simp only: find_extremes_def upt_HISTORY_SIZE foldl.simps extremes_step_first)

lemma find_extremes_max: "fst (snd (find_extremes [a, b, c])) = max_index3 a b c"
  by (auto simp: find_extremes_unfold max_index3_def)

lemma find_extremes_min: "snd (snd (snd (find_extremes [a, b, c]))) = min_index3 a b c"
  by (auto simp: find_extremes_unfold min_index3_def)

lemma history_shift:
  "length h = 3 \<Longrightarrow> h[2 := h ! 1, 1 := h ! 0, 0 := r] = [r, h ! 0, h ! 1]"
  by (cases h; simp; rename_tac x xs; case_tac xs; simp; rename_tac y ys; case_tac ys; simp)

lemma process_reading_eq:
  assumes "length (range_history s) = 3"
  shows "process_reading r s =
     (let h = [r, range_history s ! 0, range_history s ! 1];
          m = median_scan [0, 1, 2]
               (min_index3 r (range_history s ! 0) (range_history s ! 1))
               (max_index3 r (range_history s ! 0) (range_history s ! 1)) (median_index s)
      in (h ! m, s\<lparr>range_history := h, median_index := m\<rparr>))"
proof -
  let ?h = "[r, range_history s ! 0, range_history s ! 1]"
  obtain mx mxi mn mni where fe: "find_extremes ?h = (mx, mxi, mn, mni)"
    by (cases "find_extremes ?h") auto
  from fe have "mxi = max_index3 r (range_history s ! 0) (range_history s ! 1)"
    using find_extremes_max [of r "range_history s ! 0" "range_history s ! 1"] by simp
  moreover from fe have "mni = min_index3 r (range_history s ! 0) (range_history s ! 1)"
    using find_extremes_min [of r "range_history s ! 0" "range_history s ! 1"] by simp
  ultimately show ?thesis
    using fe history_shift [OF assms, of r]
    by (simp add: process_reading_def upt_HISTORY_SIZE Let_def)
qed

lemma first_seen_max3: "first_seen_max [a, b, c] = max_index3 a b c"
  by (auto simp: first_seen_max_def first_index_of_def max_index3_def max_def)

lemma first_seen_min3: "first_seen_min [a, b, c] = min_index3 a b c"
  by (auto simp: first_seen_min_def first_index_of_def min_index3_def min_def)

lemma median_scan3:
  "median_scan [0, 1, 2] (min_index3 a b c) (max_index3 a b c) k =
     (if min_index3 a b c \<noteq> 0 \<and> max_index3 a b c \<noteq> 0 then 0
      else if min_index3 a b c \<noteq> 1 \<and> max_index3 a b c \<noteq> 1 then 1 else 2)"
  by (auto simp: min_index3_def max_index3_def)

lemma median_scan3_middle:
  "[a, b, c] ! (median_scan [0, 1, 2] (min_index3 a b c) (max_index3 a b c) k)
     = middle_of_three [a, b, c]"
  by (auto simp: median_scan3 min_index3_def max_index3_def middle_of_three_def)

text \<open>
  Claim C6. After a sample \<open>r\<close> is inserted into a three-slot history, the history is
  \<open>r\<close> followed by the two newest earlier samples, and \<open>Get_Median_Reading\<close> (as well
  as the value \<open>process_reading\<close> returns) is the middle value of these three by numeric
  order, for all 16-bit samples, equal ones included. The stored index is the smallest
  index that is neither the first position of the maximum nor the first position of the
  minimum.
\<close>

theorem median_of_three:
  assumes "length (range_history s) = 3"
  shows "(let s' = snd (process_reading r s); h' = range_history s' in
           h' = [r, range_history s ! 0, range_history s ! 1] \<and>
           Get_Median_Reading s' = middle_of_three h' \<and>
           fst (process_reading r s) = middle_of_three h' \<and>
           median_index s' < 3 \<and>
           median_index s' \<noteq> first_seen_max h' \<and>
           median_index s' \<noteq> first_seen_min h' \<and>
           (\<forall>j < median_index s'. j = first_seen_max h' \<or> j = first_seen_min h'))"
proof -
  let ?a = "range_history s ! 0" and ?b = "range_history s ! 1"
  let ?m = "median_scan [0, 1, 2] (min_index3 r ?a ?b) (max_index3 r ?a ?b) (median_index s)"
  have pr: "process_reading r s =
      ([r, ?a, ?b] ! ?m, s\<lparr>range_history := [r, ?a, ?b], median_index := ?m\<rparr>)"
    using process_reading_eq [OF assms, of r] by (simp add: Let_def)
  have mid: "[r, ?a, ?b] ! ?m = middle_of_three [r, ?a, ?b]"
    by (rule median_scan3_middle)
  have lt: "?m < 3"
    by (simp add: median_scan3)
  have nmax: "?m \<noteq> max_index3 r ?a ?b" and nmin: "?m \<noteq> min_index3 r ?a ?b"
    by (auto simp: median_scan3)
  have least: "\<forall>j < ?m. j = max_index3 r ?a ?b \<or> j = min_index3 r ?a ?b"
    by (auto simp: median_scan3 less_Suc_eq numeral_2_eq_2)
  show ?thesis
    using mid lt nmax nmin least
    by (simp add: pr Let_def Get_Median_Reading_def first_seen_max3 first_seen_min3)
qed

text \<open>
  The two examples of the claim: the samples 10, 10, 20 have median 10 and the samples
  5, 20, 20 have median 20.
\<close>

theorem median_of_three_witness:
  "length (range_history \<lparr>range_history = [10, 20, 7], median_index = 0\<rparr>) = 3 \<and>
   range_history (snd (process_reading 10 \<lparr>range_history = [10, 20, 7], median_index = 0\<rparr>))
     = [10, 10, 20] \<and>
   Get_Median_Reading (snd (process_reading 10 \<lparr>range_history = [10, 20, 7], median_index = 0\<rparr>))
     = 10 \<and>
   range_history (snd (process_reading 5 \<lparr>range_history = [20, 20, 7], median_index = 0\<rparr>))
     = [5, 20, 20] \<and>
   Get_Median_Reading (snd (process_reading 5 \<lparr>range_history = [20, 20, 7], median_index = 0\<rparr>))
     = 20"
  using median_of_three [of "\<lparr>range_history = [10, 20, 7], median_index = 0\<rparr>" 10]
        median_of_three [of "\<lparr>range_history = [20, 20, 7], median_index = 0\<rparr>" 5]
  by (simp add: Let_def middle_of_three_def)

section \<open>TankManager\<close>

subsection \<open>The rate limiter and the busy result\<close>

lemma update_feed_tank_level_status_fields [simp]:
  "time_since_last_update (update_feed_tank_level_status w t) = time_since_last_update t"
  "tank_state (update_feed_tank_level_status w t) = tank_state t"
  "pump_active (update_feed_tank_level_status w t) = pump_active t"
  "feed_pump_drive_pin (update_feed_tank_level_status w t) = feed_pump_drive_pin t"
  "tank_request_manual_fill (update_feed_tank_level_status w t) = tank_request_manual_fill t"
  "tank_time_in_current_state (update_feed_tank_level_status w t) = tank_time_in_current_state t"
  "tank_manual_fill_period (update_feed_tank_level_status w t) = tank_manual_fill_period t"
  "enable (update_feed_tank_level_status w t) = enable t"
  "feed_tank_level_above_high (update_feed_tank_level_status w t)
     = (\<not> pin_in w (feed_tank_level_high_pin t))"
  "feed_tank_level_above_low (update_feed_tank_level_status w t)
     = (\<not> pin_in w (feed_tank_level_low_pin t))"
  by (simp_all add: update_feed_tank_level_status_def digitalRead_def Let_def)

lemma elapsed_system_faults [simp]: "elapsed (w\<lparr>system_faults := f\<rparr>) ms = elapsed w ms"
  by (simp add: elapsed_def)

lemma elapsed_digitalWrite [simp]: "elapsed (digitalWrite p v w) ms = elapsed w ms"
  by (simp add: elapsed_def digitalWrite_def)

lemma elapsed_restart [simp]: "elapsed w (restart w) = 0"
  by (simp add: elapsed_def restart_def)

lemma tank_update_busy_iff:
  "fst (TankManager_Update (w, t))
     \<longleftrightarrow> elapsed w (time_since_last_update t) < TANK_UPDATE_PERIOD_MSEC"
  by (simp add: TankManager_Update_def Let_def)

lemma tank_rate_limited:
  assumes "elapsed w (time_since_last_update t) < TANK_UPDATE_PERIOD_MSEC"
  shows "tank_state (snd (snd (TankManager_Update (w, t)))) = tank_state t"
    and "pump_active (snd (snd (TankManager_Update (w, t)))) = pump_active t"
    and "pin_out (fst (snd (TankManager_Update (w, t)))) = pin_out w"
    and "time_since_last_update (snd (snd (TankManager_Update (w, t)))) = time_since_last_update t"
  using assms by (simp_all add: TankManager_Update_def Let_def)

lemma Tank_switch_fields:
  "time_since_last_update (snd (Tank_switch (w, t))) = time_since_last_update t"
  "millis (fst (Tank_switch (w, t))) = millis w"
  by (cases "tank_state t";
      simp add: Tank_switch_def start_pumping_def stop_pumping_def digitalWrite_def Let_def
        split: prod.splits)+

lemma tank_accepted_restarts:
  assumes "\<not> elapsed w (time_since_last_update t) < TANK_UPDATE_PERIOD_MSEC"
  shows "elapsed (fst (snd (TankManager_Update (w, t))))
           (time_since_last_update (snd (snd (TankManager_Update (w, t))))) = 0"
  using assms
  by (simp add: TankManager_Update_def Let_def Tank_switch_fields elapsed_def restart_def)

lemma tank_manual_fill_drives:
  assumes "\<not> elapsed w (time_since_last_update t) < TANK_UPDATE_PERIOD_MSEC"
    and "tank_state t = TANK_MANUAL_FILL"
  shows "\<not> fst (TankManager_Update (w, t))"
    and "Is_Pump_Active (snd (snd (TankManager_Update (w, t))))"
    and "pin_out (fst (snd (TankManager_Update (w, t)))) (feed_pump_drive_pin t)"
  using assms
  by (simp_all add: TankManager_Update_def Tank_switch_def start_pumping_def Is_Pump_Active_def
        digitalWrite_def Let_def split: prod.splits)

lemma tank_fill_active_drives:
  assumes "\<not> elapsed w (time_since_last_update t) < TANK_UPDATE_PERIOD_MSEC"
    and "tank_state t = TANK_FILL_ACTIVE"
    and "digitalRead (feed_tank_level_high_pin t) w"
  shows "\<not> fst (TankManager_Update (w, t))"
    and "Is_Pump_Active (snd (snd (TankManager_Update (w, t))))"
    and "pin_out (fst (snd (TankManager_Update (w, t)))) (feed_pump_drive_pin t)"
  using assms
  by (simp_all add: TankManager_Update_def Tank_switch_def start_pumping_def Is_Pump_Active_def
        Is_Feed_Tank_Above_High_Mark_def digitalRead_def digitalWrite_def Let_def
        split: prod.splits)

text \<open>
  The flag behind \<open>Is_Pump_Active\<close> is written together with the pump pin and nowhere
  else, so once they agree they agree after every call; the constructor makes them agree,
  with the pump off.
\<close>

lemma tank_update_pump_pin:
  "feed_pump_drive_pin (snd (snd (TankManager_Update (w, t)))) = feed_pump_drive_pin t"
  by (cases "tank_state t";
      simp add: TankManager_Update_def Tank_switch_def start_pumping_def stop_pumping_def
        Let_def split: prod.splits)

lemma tank_update_pump_flag_follows_pin:
  assumes "pump_active t = pin_out w (feed_pump_drive_pin t)"
  shows "pump_active (snd (snd (TankManager_Update (w, t))))
           = pin_out (fst (snd (TankManager_Update (w, t)))) (feed_pump_drive_pin t)"
  using assms
  by (cases "tank_state t";
      simp add: TankManager_Update_def Tank_switch_def start_pumping_def stop_pumping_def
        digitalWrite_def Let_def split: prod.splits)

lemma tank_init_pump_off:
  "pump_active (snd (TankManager_init p lo hi w0)) = False"
  "pin_out (fst (TankManager_init p lo hi w0)) p = LOW"
  "feed_pump_drive_pin (snd (TankManager_init p lo hi w0)) = p"
  by (simp_all add: TankManager_init_def stop_pumping_def digitalWrite_def)

lemma tank_pump_off_states:
  assumes "\<not> elapsed w (time_since_last_update t) < TANK_UPDATE_PERIOD_MSEC"
    and "tank_state t = TANK_IDLE \<or> tank_state t = TANK_FILL_SETTLE \<or>
         tank_state t = TANK_FILL_ACTIVE \<and> \<not> digitalRead (feed_tank_level_high_pin t) w"
  shows "\<not> fst (TankManager_Update (w, t))"
    and "\<not> Is_Pump_Active (snd (snd (TankManager_Update (w, t))))"
    and "pin_out (fst (snd (TankManager_Update (w, t)))) (feed_pump_drive_pin t) = LOW"
  using assms
  by (elim disjE conjE;
      simp add: TankManager_Update_def Tank_switch_def start_pumping_def stop_pumping_def
        Is_Pump_Active_def Is_Feed_Tank_Above_High_Mark_def Is_Feed_Tank_Above_Low_Mark_def
        digitalRead_def digitalWrite_def Let_def split: prod.splits)+

text \<open>
  Claim C10. \<open>TankManager::Update\<close> returns \<open>true\<close> exactly on the calls the rate
  limiter rejects, those made while \<open>_time_since_last_update\<close> reads less than
  \<open>TANK_UPDATE_PERIOD_MSEC\<close>; such a call leaves the state, the pump flag, the outputs
  and that counter as they were, and every accepted call restarts the counter. A call
  that runs the state machine returns \<open>false\<close> whether or not it drives the pump: in
  \<open>TANK_MANUAL_FILL\<close>, and in \<open>TANK_FILL_ACTIVE\<close> while the high-level switch reads
  dry, the pump pin is high and \<open>Is_Pump_Active\<close> holds after it; in \<open>TANK_IDLE\<close>,
  in \<open>TANK_FILL_SETTLE\<close>, and in \<open>TANK_FILL_ACTIVE\<close> once the high-level switch reads
  wet, the pump pin is low and \<open>Is_Pump_Active\<close> does not hold after it. The return
  value therefore says nothing about the pump, while \<open>Is_Pump_Active\<close> is the level of
  the pump pin: the constructor leaves both off, and a call of \<open>Update\<close> that finds them
  equal leaves them equal.
\<close>

theorem tank_update_busy_only_when_rate_limited:
  "(fst (TankManager_Update (w, t))
      \<longleftrightarrow> elapsed w (time_since_last_update t) < TANK_UPDATE_PERIOD_MSEC) \<and>
   (elapsed w (time_since_last_update t) < TANK_UPDATE_PERIOD_MSEC \<longrightarrow>
      TankManager_Get_State (snd (snd (TankManager_Update (w, t)))) = TankManager_Get_State t \<and>
      Is_Pump_Active (snd (snd (TankManager_Update (w, t)))) = Is_Pump_Active t \<and>
      pin_out (fst (snd (TankManager_Update (w, t)))) = pin_out w \<and>
      time_since_last_update (snd (snd (TankManager_Update (w, t)))) = time_since_last_update t) \<and>
   (\<not> elapsed w (time_since_last_update t) < TANK_UPDATE_PERIOD_MSEC \<longrightarrow>
      elapsed (fst (snd (TankManager_Update (w, t))))
        (time_since_last_update (snd (snd (TankManager_Update (w, t))))) = 0) \<and>
   (\<not> elapsed w (time_since_last_update t) < TANK_UPDATE_PERIOD_MSEC \<and>
    (TankManager_Get_State t = TANK_MANUAL_FILL \<or>
     TankManager_Get_State t = TANK_FILL_ACTIVE \<and> digitalRead (feed_tank_level_high_pin t) w) \<longrightarrow>
      \<not> fst (TankManager_Update (w, t)) \<and>
      Is_Pump_Active (snd (snd (TankManager_Update (w, t)))) \<and>
      pin_out (fst (snd (TankManager_Update (w, t)))) (feed_pump_drive_pin t) = HIGH) \<and>
   (\<not> elapsed w (time_since_last_update t) < TANK_UPDATE_PERIOD_MSEC \<and>
    (TankManager_Get_State t = TANK_IDLE \<or> TankManager_Get_State t = TANK_FILL_SETTLE \<or>
     TankManager_Get_State t = TANK_FILL_ACTIVE \<and> \<not> digitalRead (feed_tank_level_high_pin t) w) \<longrightarrow>
      \<not> fst (TankManager_Update (w, t)) \<and>
      \<not> Is_Pump_Active (snd (snd (TankManager_Update (w, t)))) \<and>
      pin_out (fst (snd (TankManager_Update (w, t)))) (feed_pump_drive_pin t) = LOW) \<and>
   (Is_Pump_Active t = pin_out w (feed_pump_drive_pin t) \<longrightarrow>
      Is_Pump_Active (snd (snd (TankManager_Update (w, t))))
        = pin_out (fst (snd (TankManager_Update (w, t))))
            (feed_pump_drive_pin (snd (snd (TankManager_Update (w, t)))))) \<and>
   \<not> Is_Pump_Active (snd (TankManager_init p lo hi w0)) \<and>
   pin_out (fst (TankManager_init p lo hi w0))
     (feed_pump_drive_pin (snd (TankManager_init p lo hi w0))) = LOW"
proof -
  have busy: "fst (TankManager_Update (w, t))
      \<longleftrightarrow> elapsed w (time_since_last_update t) < TANK_UPDATE_PERIOD_MSEC"
    by (rule tank_update_busy_iff)
  have rejected: "TankManager_Get_State (snd (snd (TankManager_Update (w, t)))) = TankManager_Get_State t \<and>
      Is_Pump_Active (snd (snd (TankManager_Update (w, t)))) = Is_Pump_Active t \<and>
      pin_out (fst (snd (TankManager_Update (w, t)))) = pin_out w \<and>
      time_since_last_update (snd (snd (TankManager_Update (w, t)))) = time_since_last_update t"
    if "elapsed w (time_since_last_update t) < TANK_UPDATE_PERIOD_MSEC"
    using tank_rate_limited [OF that] by (simp add: TankManager_Get_State_def Is_Pump_Active_def)
  have driven: "\<not> fst (TankManager_Update (w, t)) \<and>
      Is_Pump_Active (snd (snd (TankManager_Update (w, t)))) \<and>
      pin_out (fst (snd (TankManager_Update (w, t)))) (feed_pump_drive_pin t) = HIGH"
    if "\<not> elapsed w (time_since_last_update t) < TANK_UPDATE_PERIOD_MSEC"
      and "TankManager_Get_State t = TANK_MANUAL_FILL \<or>
        TankManager_Get_State t = TANK_FILL_ACTIVE \<and> digitalRead (feed_tank_level_high_pin t) w"
    using that tank_manual_fill_drives [of w t] tank_fill_active_drives [of w t]
    by (auto simp: TankManager_Get_State_def)
  have off: "\<not> fst (TankManager_Update (w, t)) \<and>
      \<not> Is_Pump_Active (snd (snd (TankManager_Update (w, t)))) \<and>
      pin_out (fst (snd (TankManager_Update (w, t)))) (feed_pump_drive_pin t) = LOW"
    if "\<not> elapsed w (time_since_last_update t) < TANK_UPDATE_PERIOD_MSEC"
      and "TankManager_Get_State t = TANK_IDLE \<or> TankManager_Get_State t = TANK_FILL_SETTLE \<or>
        TankManager_Get_State t = TANK_FILL_ACTIVE \<and> \<not> digitalRead (feed_tank_level_high_pin t) w"
    using tank_pump_off_states [of w t] that by (simp add: TankManager_Get_State_def)
  have inv: "Is_Pump_Active (snd (snd (TankManager_Update (w, t))))
        = pin_out (fst (snd (TankManager_Update (w, t))))
            (feed_pump_drive_pin (snd (snd (TankManager_Update (w, t)))))"
    if "Is_Pump_Active t = pin_out w (feed_pump_drive_pin t)"
    using tank_update_pump_flag_follows_pin [of t w] that
    by (simp add: Is_Pump_Active_def tank_update_pump_pin)
  have init: "\<not> Is_Pump_Active (snd (TankManager_init p lo hi w0)) \<and>
      pin_out (fst (TankManager_init p lo hi w0))
        (feed_pump_drive_pin (snd (TankManager_init p lo hi w0))) = LOW"
    by (simp add: Is_Pump_Active_def tank_init_pump_off)
  show ?thesis
    using busy rejected tank_accepted_restarts [of w t] driven off inv init by blast
qed

lemmas tank_eval_defs =
  example_world_def at_millis_def example_tank_def
  TankManager_init_def TankManager_Update_def TankManager_Set_Regulator_Enable_def
  TankManager_Manual_Fill_def Tank_switch_def
  update_feed_tank_level_status_def start_pumping_def stop_pumping_def
  digitalWrite_def digitalRead_def elapsed_def restart_def
  Is_Feed_Tank_Above_High_Mark_def Is_Feed_Tank_Above_Low_Mark_def Is_Pump_Active_def
  TankManager_Get_State_def TANK_UPDATE_PERIOD_MSEC_def MAX_PUMP_FILL_TIME_MSEC_def
  FAULT_SET_def FAULT_ACTIVE_def FAULT_TANK_FILL_TIMEOUT_def FAULT_TANK_LEVEL_SENSE_FAIL_def

lemma tank_filling_eval:
  "tank_filling =
     (\<lparr>millis = 10, system_faults = 0, pin_out = (\<lambda>pin. LOW), pin_in = (\<lambda>pin. HIGH)\<rparr>,
      \<lparr>feed_pump_drive_pin = 8, feed_tank_level_high_pin = 1, feed_tank_level_low_pin = 0,
       feed_tank_level_above_high = False, feed_tank_level_above_low = False,
       pump_active = False, enable = True, enable_logging = False,
       tank_state = TANK_FILL_ACTIVE, tank_time_in_current_state = 10,
       time_since_last_update = 10, tank_request_manual_fill = False,
       tank_manual_fill_period = 2000, post_pump_settle_period = 1000\<rparr>)"
  by (simp add: tank_filling_def tank_eval_defs Let_def fun_upd_def)

text \<open>
  The filling tank of the concrete run, 5 ms after its last accepted call (rejected,
  \<open>true\<close>, nothing changes) and 10 ms after it (accepted, \<open>false\<close>, pump driven);
  and the constructed tank, idle and not enabled, at time 10 (accepted, \<open>false\<close>, pump
  off).
\<close>

theorem tank_update_busy_only_when_rate_limited_witness:
  "fst (TankManager_Update (at_millis 15 (fst tank_filling), snd tank_filling)) \<and>
   TankManager_Get_State
     (snd (snd (TankManager_Update (at_millis 15 (fst tank_filling), snd tank_filling))))
     = TANK_FILL_ACTIVE \<and>
   \<not> Is_Pump_Active
     (snd (snd (TankManager_Update (at_millis 15 (fst tank_filling), snd tank_filling)))) \<and>
   \<not> fst (TankManager_Update (at_millis 20 (fst tank_filling), snd tank_filling)) \<and>
   Is_Pump_Active
     (snd (snd (TankManager_Update (at_millis 20 (fst tank_filling), snd tank_filling)))) \<and>
   pin_out (fst (snd (TankManager_Update (at_millis 20 (fst tank_filling), snd tank_filling)))) 8 \<and>
   \<not> fst (TankManager_Update (at_millis 10 (fst example_tank), snd example_tank)) \<and>
   \<not> Is_Pump_Active
     (snd (snd (TankManager_Update (at_millis 10 (fst example_tank), snd example_tank)))) \<and>
   \<not> pin_out (fst (snd (TankManager_Update (at_millis 10 (fst example_tank), snd example_tank)))) 8"
proof -
  have idle: "TankManager_Get_State (snd example_tank) = TANK_IDLE \<and>
      feed_pump_drive_pin (snd example_tank) = 8 \<and>
      \<not> elapsed (at_millis 10 (fst example_tank)) (time_since_last_update (snd example_tank))
          < TANK_UPDATE_PERIOD_MSEC"
    by (simp add: tank_eval_defs)
  have filling: "TankManager_Get_State (snd tank_filling) = TANK_FILL_ACTIVE \<and>
      feed_pump_drive_pin (snd tank_filling) = 8 \<and>
      \<not> Is_Pump_Active (snd tank_filling) \<and>
      digitalRead (feed_tank_level_high_pin (snd tank_filling)) (at_millis 20 (fst tank_filling)) \<and>
      elapsed (at_millis 15 (fst tank_filling)) (time_since_last_update (snd tank_filling))
          < TANK_UPDATE_PERIOD_MSEC \<and>
      \<not> elapsed (at_millis 20 (fst tank_filling)) (time_since_last_update (snd tank_filling))
          < TANK_UPDATE_PERIOD_MSEC"
    unfolding tank_filling_eval
    by (simp add: at_millis_def elapsed_def TANK_UPDATE_PERIOD_MSEC_def TankManager_Get_State_def
          Is_Pump_Active_def digitalRead_def)
  show ?thesis
    using idle filling
      tank_update_busy_only_when_rate_limited
        [of "at_millis 15 (fst tank_filling)" "snd tank_filling"]
      tank_update_busy_only_when_rate_limited
        [of "at_millis 20 (fst tank_filling)" "snd tank_filling"]
      tank_update_busy_only_when_rate_limited
        [of "at_millis 10 (fst example_tank)" "snd example_tank"]
    by simp
qed

subsection \<open>The fill timeout\<close>

text \<open>
  The state \<open>TANK_FILL_TIMEOUT_FAULT\<close> has a case in the switch, but no assignment of
  the class enters it.
\<close>

lemma tank_timeout_state_never_entered:
  assumes "tank_state t \<noteq> TANK_FILL_TIMEOUT_FAULT"
  shows "tank_state (snd (snd (TankManager_Update (w, t)))) \<noteq> TANK_FILL_TIMEOUT_FAULT"
  using assms
  by (cases "tank_state t")
     (simp_all add: TankManager_Update_def Tank_switch_def start_pumping_def stop_pumping_def
        Let_def split: prod.splits)

text \<open>
  What the timeout branch of \<open>TANK_FILL_ACTIVE\<close> does on any accepted call of an
  enabled tank whose high-level switch reads dry.
\<close>

lemma tank_fill_timeout_branch:
  assumes "\<not> elapsed w (time_since_last_update t) < TANK_UPDATE_PERIOD_MSEC"
    and "tank_state t = TANK_FILL_ACTIVE" and "enable t"
    and "digitalRead (feed_tank_level_high_pin t) w"
    and "elapsed w (tank_time_in_current_state t) \<ge> MAX_PUMP_FILL_TIME_MSEC"
  shows "tank_state (snd (snd (TankManager_Update (w, t)))) = TANK_FILL_ACTIVE"
    and "pump_active (snd (snd (TankManager_Update (w, t))))"
    and "pin_out (fst (snd (TankManager_Update (w, t)))) (feed_pump_drive_pin t) = HIGH"
  using assms
  by (simp_all add: TankManager_Update_def Tank_switch_def start_pumping_def
        Is_Feed_Tank_Above_High_Mark_def digitalRead_def digitalWrite_def Let_def
        split: prod.splits)

text \<open>
  Claim C2, evaluated on the concrete run: the tank has been in \<open>TANK_FILL_ACTIVE\<close> for
  exactly \<open>MAX_PUMP_FILL_TIME_MSEC\<close> when \<open>Update\<close> is called. The call sets
  \<open>FAULT_TANK_FILL_TIMEOUT\<close>, but the state is still \<open>TANK_FILL_ACTIVE\<close> afterwards
  and the pump is still driven.
\<close>

theorem tank_fill_timeout_keeps_pumping:
  "(let (busy, w, t) = tank_fill_timeout_call in
      elapsed (at_millis 30010 (fst tank_filling)) (tank_time_in_current_state (snd tank_filling))
         = MAX_PUMP_FILL_TIME_MSEC \<and>
      TankManager_Get_State (snd tank_filling) = TANK_FILL_ACTIVE \<and>
      \<not> busy \<and>
      FAULT_ACTIVE FAULT_TANK_FILL_TIMEOUT (system_faults w) \<and>
      TankManager_Get_State t = TANK_FILL_ACTIVE \<and>
      Is_Pump_Active t \<and>
      pin_out w (feed_pump_drive_pin t) = HIGH)"
  unfolding tank_fill_timeout_call_def tank_filling_eval
  by (simp add: tank_eval_defs Let_def)

subsection \<open>Manual fill requests\<close>

text \<open>
  Claim C8 as stated fails: with a manual fill requested while the tank is in
  \<open>TANK_FILL_ACTIVE\<close>, the next accepted \<open>Update\<close> leaves the state at
  \<open>TANK_FILL_ACTIVE\<close> and the request pending.
\<close>

theorem tank_manual_fill_not_preemptive:
  "(let (busy, w, t) = tank_manual_request_call in
      tank_request_manual_fill (snd (TankManager_Manual_Fill 150 (snd tank_filling))) \<and>
      \<not> busy \<and>
      TankManager_Get_State t \<noteq> TANK_MANUAL_FILL \<and>
      TankManager_Get_State t = TANK_FILL_ACTIVE \<and>
      tank_request_manual_fill t)"
  unfolding tank_manual_request_call_def tank_filling_eval
  by (simp add: tank_eval_defs Let_def)

text \<open>
  Claim C8 as amended. On an \<open>Update\<close> that the rate limiter accepts, a pending manual
  fill request is taken in \<open>TANK_IDLE\<close> only: there the state becomes
  \<open>TANK_MANUAL_FILL\<close>, the request is cleared and the time in state restarts. In any
  other state the request stays as it was, and the call does not enter
  \<open>TANK_MANUAL_FILL\<close>.
\<close>

theorem tank_manual_fill_taken_in_idle:
  assumes "\<not> elapsed w (time_since_last_update t) < TANK_UPDATE_PERIOD_MSEC"
  shows "(TankManager_Get_State t = TANK_IDLE \<and> tank_request_manual_fill t \<longrightarrow>
            TankManager_Get_State (snd (snd (TankManager_Update (w, t)))) = TANK_MANUAL_FILL \<and>
            \<not> tank_request_manual_fill (snd (snd (TankManager_Update (w, t)))) \<and>
            elapsed (fst (snd (TankManager_Update (w, t))))
              (tank_time_in_current_state (snd (snd (TankManager_Update (w, t))))) = 0) \<and>
         (TankManager_Get_State t \<noteq> TANK_IDLE \<longrightarrow>
            tank_request_manual_fill (snd (snd (TankManager_Update (w, t))))
              = tank_request_manual_fill t \<and>
            (TankManager_Get_State (snd (snd (TankManager_Update (w, t)))) = TANK_MANUAL_FILL
               \<longrightarrow> TankManager_Get_State t = TANK_MANUAL_FILL))"
  using assms
  by (cases "tank_state t")
     (simp_all add: TankManager_Update_def Tank_switch_def start_pumping_def stop_pumping_def
        TankManager_Get_State_def Let_def split: prod.splits)

text \<open>
  The constructed tank with a manual fill requested, updated at time 10: the request is
  taken from \<open>TANK_IDLE\<close>.
\<close>

theorem tank_manual_fill_taken_in_idle_witness:
  "\<not> elapsed (at_millis 10 (fst example_tank))
        (time_since_last_update (snd (TankManager_Manual_Fill 150 (snd example_tank))))
      < TANK_UPDATE_PERIOD_MSEC \<and>
   TankManager_Get_State (snd (TankManager_Manual_Fill 150 (snd example_tank))) = TANK_IDLE \<and>
   tank_request_manual_fill (snd (TankManager_Manual_Fill 150 (snd example_tank))) \<and>
   TankManager_Get_State
     (snd (snd (TankManager_Update
        (at_millis 10 (fst example_tank), snd (TankManager_Manual_Fill 150 (snd example_tank))))))
     = TANK_MANUAL_FILL"
proof -
  have h: "\<not> elapsed (at_millis 10 (fst example_tank))
        (time_since_last_update (snd (TankManager_Manual_Fill 150 (snd example_tank))))
      < TANK_UPDATE_PERIOD_MSEC"
    by (simp add: tank_eval_defs)
  have i: "TankManager_Get_State (snd (TankManager_Manual_Fill 150 (snd example_tank))) = TANK_IDLE"
    by (simp add: tank_eval_defs)
  have r: "tank_request_manual_fill (snd (TankManager_Manual_Fill 150 (snd example_tank)))"
    by (simp add: tank_eval_defs)
  show ?thesis
    using h i r tank_manual_fill_taken_in_idle [OF h] by simp
qed

section \<open>ColumnManager: what one call changes\<close>

text \<open>The fields after the first two phases of \<open>Update\<close>, and the effect of the valve commands.\<close>

lemma Update_store_inputs_fields [simp]:
  "elevation_mm (Update_store_inputs e s c) = e"
  "feed_valve_actuator_pin (Update_store_inputs e s c) = feed_valve_actuator_pin c"
  "drain_valve_actuator_pin (Update_store_inputs e s c) = drain_valve_actuator_pin c"
  "elevation_lower_limit (Update_store_inputs e s c) = elevation_lower_limit c"
  "elevation_upper_limit (Update_store_inputs e s c) = elevation_upper_limit c"
  "setpoint_deadband (Update_store_inputs e s c) = setpoint_deadband c"
  "regulator_enable (Update_store_inputs e s c) = regulator_enable c"
  "col_state (Update_store_inputs e s c) = col_state c"
  "col_time_in_current_state (Update_store_inputs e s c) = col_time_in_current_state c"
  "manual_drain_period (Update_store_inputs e s c) = manual_drain_period c"
  "col_manual_fill_period (Update_store_inputs e s c) = col_manual_fill_period c"
  "drain_dwell_period (Update_store_inputs e s c) = drain_dwell_period c"
  "fill_dwell_period (Update_store_inputs e s c) = fill_dwell_period c"
  "max_column_drain_period (Update_store_inputs e s c) = max_column_drain_period c"
  "max_column_fill_period (Update_store_inputs e s c) = max_column_fill_period c"
  "col_request_manual_fill (Update_store_inputs e s c) = col_request_manual_fill c"
  "request_manual_drain (Update_store_inputs e s c) = request_manual_drain c"
  by (simp_all add: Update_store_inputs_def Let_def)

lemma Update_store_inputs_setpoint:
  "setpoint_mm (Update_store_inputs e s c) = setpoint_mm (Update_store_inputs e' s c)"
  by (simp add: Update_store_inputs_def Let_def)

lemma Update_manual_requests_fields [simp]:
  "elevation_mm (Update_manual_requests w c) = elevation_mm c"
  "setpoint_mm (Update_manual_requests w c) = setpoint_mm c"
  "feed_valve_actuator_pin (Update_manual_requests w c) = feed_valve_actuator_pin c"
  "drain_valve_actuator_pin (Update_manual_requests w c) = drain_valve_actuator_pin c"
  "elevation_lower_limit (Update_manual_requests w c) = elevation_lower_limit c"
  "elevation_upper_limit (Update_manual_requests w c) = elevation_upper_limit c"
  "setpoint_deadband (Update_manual_requests w c) = setpoint_deadband c"
  "regulator_enable (Update_manual_requests w c) = regulator_enable c"
  "manual_drain_period (Update_manual_requests w c) = manual_drain_period c"
  "col_manual_fill_period (Update_manual_requests w c) = col_manual_fill_period c"
  "drain_dwell_period (Update_manual_requests w c) = drain_dwell_period c"
  "fill_dwell_period (Update_manual_requests w c) = fill_dwell_period c"
  "max_column_drain_period (Update_manual_requests w c) = max_column_drain_period c"
  "max_column_fill_period (Update_manual_requests w c) = max_column_fill_period c"
  "col_request_manual_fill (Update_manual_requests w c) = False"
  "request_manual_drain (Update_manual_requests w c) = False"
  "col_state (Update_manual_requests w c) =
     (if request_manual_drain c then COLUMN_MANUAL_DRAIN
      else if col_request_manual_fill c then COLUMN_MANUAL_FILL else col_state c)"
  "col_time_in_current_state (Update_manual_requests w c) =
     (if request_manual_drain c \<or> col_request_manual_fill c then restart w
      else col_time_in_current_state c)"
  by (simp_all add: Update_manual_requests_def Let_def)

lemma valve_command_fields [simp]:
  "system_faults (stop_flows c w) = system_faults w"
  "system_faults (start_filling c w) = system_faults w"
  "system_faults (start_draining c w) = system_faults w"
  "millis (stop_flows c w) = millis w"
  "millis (start_filling c w) = millis w"
  "millis (start_draining c w) = millis w"
  by (simp_all add: stop_flows_def start_filling_def start_draining_def digitalWrite_def Let_def)

lemma valve_command_pins:
  "pin_out (stop_flows c w) =
     (if FAULT_ACTIVE FAULT_SX1509_IO_EXPANDER_INIT_FAIL (system_faults w) then pin_out w
      else (pin_out w)(feed_valve_actuator_pin c := LOW, drain_valve_actuator_pin c := LOW))"
  "pin_out (start_filling c w) =
     (pin_out w)(feed_valve_actuator_pin c := HIGH, drain_valve_actuator_pin c := LOW)"
  "pin_out (start_draining c w) =
     (if FAULT_ACTIVE FAULT_SX1509_IO_EXPANDER_INIT_FAIL (system_faults w) then pin_out w
      else (pin_out w)(feed_valve_actuator_pin c := LOW, drain_valve_actuator_pin c := HIGH))"
  by (simp_all add: stop_flows_def start_filling_def start_draining_def digitalWrite_def Let_def)

lemma elapsed_valve_command [simp]:
  "elapsed (stop_flows c w) ms = elapsed w ms"
  "elapsed (start_filling c w) ms = elapsed w ms"
  "elapsed (start_draining c w) ms = elapsed w ms"
  by (simp_all add: elapsed_def)

lemma restart_valve_command [simp]:
  "restart (stop_flows c w) = restart w"
  "restart (start_filling c w) = restart w"
  "restart (start_draining c w) = restart w"
  by (simp_all add: restart_def)

text \<open>\<open>Update\<close> reads the fault bitmap and never writes it, and the pin numbers are fixed.\<close>

lemma Update_switch_system_faults: "system_faults (fst (snd (Update_switch w c))) = system_faults w"
  by (cases "col_state c") (simp_all add: Update_switch_def Let_def)

lemma Update_switch_pins_fields:
  "feed_valve_actuator_pin (snd (snd (Update_switch w c))) = feed_valve_actuator_pin c"
  "drain_valve_actuator_pin (snd (snd (Update_switch w c))) = drain_valve_actuator_pin c"
  by (cases "col_state c"; simp add: Update_switch_def Let_def)+

lemma Update_system_faults:
  "system_faults (fst (snd (ColumnManager_Update e s (w, c)))) = system_faults w"
  by (simp add: ColumnManager_Update_def Let_def Update_switch_system_faults)

lemma Update_pins_fields:
  "feed_valve_actuator_pin (snd (snd (ColumnManager_Update e s (w, c)))) = feed_valve_actuator_pin c"
  "drain_valve_actuator_pin (snd (snd (ColumnManager_Update e s (w, c)))) = drain_valve_actuator_pin c"
  by (simp_all add: ColumnManager_Update_def Let_def Update_switch_pins_fields)

subsection \<open>The two valves are never both commanded high\<close>

text \<open>
  Each valve command that writes at all writes both pins, at most one of them high, so
  every case of the switch keeps the exclusion; so do the other methods, which write no
  pin, and the constructor establishes or keeps it.
\<close>

lemma Update_switch_invariant:
  assumes "feed_valve_actuator_pin c \<noteq> drain_valve_actuator_pin c"
    and "\<not> (pin_out w (feed_valve_actuator_pin c) \<and> pin_out w (drain_valve_actuator_pin c))"
  shows "\<not> (pin_out (fst (snd (Update_switch w c))) (feed_valve_actuator_pin c) \<and>
            pin_out (fst (snd (Update_switch w c))) (drain_valve_actuator_pin c))"
  using assms
  by (cases "col_state c") (auto simp: Update_switch_def Let_def valve_command_pins)

lemma Update_invariant:
  assumes "feed_valve_actuator_pin c \<noteq> drain_valve_actuator_pin c"
    and "\<not> (pin_out w (feed_valve_actuator_pin c) \<and> pin_out w (drain_valve_actuator_pin c))"
  shows "\<not> (pin_out (fst (snd (ColumnManager_Update e s (w, c)))) (feed_valve_actuator_pin c) \<and>
            pin_out (fst (snd (ColumnManager_Update e s (w, c)))) (drain_valve_actuator_pin c))"
proof -
  let ?c = "(Update_manual_requests w (Update_store_inputs e s c))
              \<lparr>control_error_state :=
                 control_loop_update (Update_manual_requests w (Update_store_inputs e s c))\<rparr>"
  have "feed_valve_actuator_pin ?c = feed_valve_actuator_pin c"
    and "drain_valve_actuator_pin ?c = drain_valve_actuator_pin c" by simp_all
  with assms Update_switch_invariant [of ?c w] show ?thesis
    by (simp add: ColumnManager_Update_def Let_def)
qed

lemma column_step_pins_fields:
  "feed_valve_actuator_pin (snd (column_step ev wc)) = feed_valve_actuator_pin (snd wc)"
  "drain_valve_actuator_pin (snd (column_step ev wc)) = drain_valve_actuator_pin (snd wc)"
  by (cases ev; cases wc;
      simp add: Update_pins_fields ColumnManager_Set_Regulator_Enable_def
        ColumnManager_Manual_Fill_def Manual_Drain_def Set_Elevation_Reading_MM_def)+

lemma column_step_exclusive:
  assumes "feed_valve_actuator_pin (snd wc) \<noteq> drain_valve_actuator_pin (snd wc)"
    and "valves_exclusive wc"
  shows "valves_exclusive (column_step ev wc)"
proof (cases wc)
  case (Pair w c)
  show ?thesis
  proof (cases ev)
    case (Update_At now e s)
    have "\<not> (pin_out (at_millis now w) (feed_valve_actuator_pin c) \<and>
              pin_out (at_millis now w) (drain_valve_actuator_pin c))"
      using assms Pair by (simp add: valves_exclusive_def at_millis_def)
    with assms Pair Update_At Update_invariant [of c "at_millis now w" e s] show ?thesis
      by (simp add: valves_exclusive_def Update_pins_fields)
  qed (use assms Pair in \<open>simp_all add: valves_exclusive_def ColumnManager_Set_Regulator_Enable_def
        ColumnManager_Manual_Fill_def Manual_Drain_def Set_Elevation_Reading_MM_def\<close>)
qed

lemma column_run_exclusive:
  assumes "feed_valve_actuator_pin (snd wc) \<noteq> drain_valve_actuator_pin (snd wc)"
    and "valves_exclusive wc"
  shows "valves_exclusive (column_run evs wc)"
  using assms
proof (induction evs arbitrary: wc)
  case Nil
  then show ?case by simp
next
  case (Cons ev evs)
  then show ?case
    by (simp add: column_step_exclusive column_step_pins_fields)
qed

lemma ColumnManager_init_exclusive:
  assumes "\<not> (pin_out w feed = HIGH \<and> pin_out w drain = HIGH)"
  shows "valves_exclusive (ColumnManager_init num feed drain lo hi w)"
  using assms
  by (auto simp: valves_exclusive_def ColumnManager_init_def Let_def valve_command_pins)

lemma ColumnManager_init_pins_fields:
  "feed_valve_actuator_pin (snd (ColumnManager_init num feed drain lo hi w)) = feed"
  "drain_valve_actuator_pin (snd (ColumnManager_init num feed drain lo hi w)) = drain"
  by (simp_all add: ColumnManager_init_def Let_def)

subsection \<open>Closing both valves from any state\<close>

text \<open>
  With the reading at the clamped setpoint the control error is
  \<open>CONTROL_ERROR_DEADBAND\<close>. Any \<open>Update\<close> consumes the manual requests; a second
  one made when every period has run out ends in a state whose case calls
  \<open>stop_flows()\<close>; a third one then closes both valves, provided \<open>stop_flows()\<close> is
  not held back by the expander's init fault.
\<close>

lemma at_setpoint_deadband:
  assumes "e = setpoint_mm (Update_store_inputs e' s c)"
  shows "control_loop_update (Update_manual_requests w (Update_store_inputs e s c))
           = CONTROL_ERROR_DEADBAND"
proof -
  have "setpoint_mm (Update_store_inputs e s c) = e"
    using assms Update_store_inputs_setpoint [of e s c e'] by simp
  then show ?thesis by (simp add: control_loop_update_def)
qed

lemma Update_clears_requests:
  "col_request_manual_fill (snd (snd (ColumnManager_Update e s (w, c)))) = False"
  "request_manual_drain (snd (snd (ColumnManager_Update e s (w, c)))) = False"
  by (simp_all add: ColumnManager_Update_def Let_def Update_switch_def
        split: COLUMN_STATE_TYPE_T.splits)

lemma Update_limits:
  "elevation_lower_limit (snd (snd (ColumnManager_Update e s (w, c)))) = elevation_lower_limit c"
  "elevation_upper_limit (snd (snd (ColumnManager_Update e s (w, c)))) = elevation_upper_limit c"
  by (simp_all add: ColumnManager_Update_def Let_def Update_switch_def
        split: COLUMN_STATE_TYPE_T.splits)

lemma clamped_setpoint_limits:
  assumes "elevation_lower_limit c' = elevation_lower_limit c"
    and "elevation_upper_limit c' = elevation_upper_limit c"
  shows "setpoint_mm (Update_store_inputs e s c') = setpoint_mm (Update_store_inputs e s c)"
  using assms by (simp add: Update_store_inputs_def Let_def)

lemma late_update_stopping_state:
  assumes "e = setpoint_mm (Update_store_inputs e' s c)"
    and "\<not> col_request_manual_fill c" and "\<not> request_manual_drain c"
    and "elapsed w (col_time_in_current_state c) = - 1"
  shows "stopping_state (col_state (snd (snd (ColumnManager_Update e s (w, c)))))"
  using assms at_setpoint_deadband [OF assms(1), of w]
  by (cases "col_state c")
     (simp_all add: ColumnManager_Update_def Let_def Update_switch_def stopping_state_def)

lemma stopping_state_update_stops:
  assumes "e = setpoint_mm (Update_store_inputs e' s c)"
    and "\<not> col_request_manual_fill c" and "\<not> request_manual_drain c"
    and "stopping_state (col_state c)"
    and "\<not> FAULT_ACTIVE FAULT_SX1509_IO_EXPANDER_INIT_FAIL (system_faults w)"
  shows "pin_out (fst (snd (ColumnManager_Update e s (w, c)))) (feed_valve_actuator_pin c) = LOW"
    and "pin_out (fst (snd (ColumnManager_Update e s (w, c)))) (drain_valve_actuator_pin c) = LOW"
  using assms at_setpoint_deadband [OF assms(1), of w]
  by (cases "col_state c";
      simp add: ColumnManager_Update_def Let_def Update_switch_def stopping_state_def
        valve_command_pins)+

lemma three_updates_stop:
  assumes nf: "\<not> FAULT_ACTIVE FAULT_SX1509_IO_EXPANDER_INIT_FAIL (system_faults w)"
  shows "pin_out (fst (three_updates_at_setpoint s (w, c))) (feed_valve_actuator_pin c) = LOW"
    and "pin_out (fst (three_updates_at_setpoint s (w, c))) (drain_valve_actuator_pin c) = LOW"
proof -
  define e where "e = setpoint_mm (Update_store_inputs s s c)"
  define r1 where "r1 = ColumnManager_Update e s (w, c)"
  define w1 where "w1 = at_millis (col_time_in_current_state (snd (snd r1)) - 1) (fst (snd r1))"
  define r2 where "r2 = ColumnManager_Update e s (w1, snd (snd r1))"
  define r3 where "r3 = ColumnManager_Update e s (fst (snd r2), snd (snd r2))"
  have run: "three_updates_at_setpoint s (w, c) = snd r3"
    by (simp add: three_updates_at_setpoint_def Let_def e_def r1_def w1_def r2_def r3_def)
  have e1: "e = setpoint_mm (Update_store_inputs s s (snd (snd r1)))"
    unfolding e_def r1_def by (rule clamped_setpoint_limits [symmetric]) (rule Update_limits)+
  have req1: "\<not> col_request_manual_fill (snd (snd r1))" "\<not> request_manual_drain (snd (snd r1))"
    unfolding r1_def by (simp_all add: Update_clears_requests)
  have late: "elapsed w1 (col_time_in_current_state (snd (snd r1))) = - 1"
    by (simp add: w1_def elapsed_def at_millis_def)
  have st2: "stopping_state (col_state (snd (snd r2)))"
    unfolding r2_def by (rule late_update_stopping_state [OF e1 req1 late])
  have e2: "e = setpoint_mm (Update_store_inputs s s (snd (snd r2)))"
    unfolding r2_def using e1
    by (simp add: clamped_setpoint_limits [OF Update_limits])
  have req2: "\<not> col_request_manual_fill (snd (snd r2))" "\<not> request_manual_drain (snd (snd r2))"
    unfolding r2_def by (simp_all add: Update_clears_requests)
  have nf2: "\<not> FAULT_ACTIVE FAULT_SX1509_IO_EXPANDER_INIT_FAIL (system_faults (fst (snd r2)))"
    using nf by (simp add: r2_def r1_def w1_def Update_system_faults at_millis_def)
  have pins: "feed_valve_actuator_pin (snd (snd r2)) = feed_valve_actuator_pin c"
    "drain_valve_actuator_pin (snd (snd r2)) = drain_valve_actuator_pin c"
    by (simp_all add: r2_def r1_def Update_pins_fields)
  show "pin_out (fst (three_updates_at_setpoint s (w, c))) (feed_valve_actuator_pin c) = LOW"
    using stopping_state_update_stops(1) [OF e2 req2 st2 nf2] by (simp add: run r3_def pins)
  show "pin_out (fst (three_updates_at_setpoint s (w, c))) (drain_valve_actuator_pin c) = LOW"
    using stopping_state_update_stops(2) [OF e2 req2 st2 nf2] by (simp add: run r3_def pins)
qed

subsection \<open>The feed valve under the expander's init fault\<close>

text \<open>
  While \<open>FAULT_SX1509_IO_EXPANDER_INIT_FAIL\<close> is active, \<open>stop_flows\<close> and
  \<open>start_draining\<close> write nothing, and \<open>start_filling\<close> writes the feed pin high. A
  feed valve that is open then stays open, and \<open>FAULT_SET\<close> never clears a bit.
\<close>

lemma FAULT_SET_keeps_active:
  assumes "FAULT_ACTIVE x f"
  shows "FAULT_ACTIVE x (FAULT_SET y f)"
proof -
  have "(f OR push_bit y 1) AND push_bit x 1 = (f AND push_bit x 1) OR (push_bit y 1 AND push_bit x 1)"
    by (simp add: bit.conj_disj_distrib2)
  with assms show ?thesis
    by (simp add: FAULT_ACTIVE_def FAULT_SET_def or_eq_0_iff)
qed

lemma Update_switch_stuck:
  assumes "FAULT_ACTIVE FAULT_SX1509_IO_EXPANDER_INIT_FAIL (system_faults w)"
    and "feed_valve_actuator_pin c \<noteq> drain_valve_actuator_pin c"
    and "pin_out w (feed_valve_actuator_pin c) = HIGH"
  shows "pin_out (fst (snd (Update_switch w c))) (feed_valve_actuator_pin c) = HIGH"
  using assms
  by (cases "col_state c") (simp_all add: Update_switch_def Let_def valve_command_pins)

lemma Update_stuck:
  assumes "FAULT_ACTIVE FAULT_SX1509_IO_EXPANDER_INIT_FAIL (system_faults w)"
    and "feed_valve_actuator_pin c \<noteq> drain_valve_actuator_pin c"
    and "pin_out w (feed_valve_actuator_pin c) = HIGH"
  shows "pin_out (fst (snd (ColumnManager_Update e s (w, c)))) (feed_valve_actuator_pin c) = HIGH"
proof -
  let ?c = "(Update_manual_requests w (Update_store_inputs e s c))
              \<lparr>control_error_state :=
                 control_loop_update (Update_manual_requests w (Update_store_inputs e s c))\<rparr>"
  have "pin_out (fst (snd (Update_switch w ?c))) (feed_valve_actuator_pin ?c) = HIGH"
    using assms by (intro Update_switch_stuck) simp_all
  then show ?thesis
    by (simp add: ColumnManager_Update_def Let_def)
qed

lemma column_step_stuck:
  assumes "feed_stuck_open wc"
  shows "feed_stuck_open (column_step ev wc)"
proof (cases wc)
  case (Pair w c)
  show ?thesis
  proof (cases ev)
    case (Update_At now e s)
    have "pin_out (fst (snd (ColumnManager_Update e s (at_millis now w, c))))
            (feed_valve_actuator_pin c) = HIGH"
      using assms Pair by (intro Update_stuck) (simp_all add: feed_stuck_open_def at_millis_def)
    then show ?thesis
      using assms Pair Update_At
      by (simp add: feed_stuck_open_def Update_pins_fields Update_system_faults at_millis_def)
  next
    case (Fault_Raised x)
    then show ?thesis
      using assms Pair by (simp add: feed_stuck_open_def FAULT_SET_keeps_active)
  qed (use assms Pair in \<open>simp_all add: feed_stuck_open_def ColumnManager_Set_Regulator_Enable_def
        ColumnManager_Manual_Fill_def Manual_Drain_def Set_Elevation_Reading_MM_def\<close>)
qed

lemma column_run_stuck:
  "feed_stuck_open wc \<Longrightarrow> feed_stuck_open (column_run evs wc)"
  by (induction evs arbitrary: wc) (simp_all add: column_step_stuck)

subsection \<open>The control error\<close>

text \<open>
  When reading and setpoint are less than 32768 apart the 16-bit signed difference is the
  exact difference, and the control error is the comparison one expects.
\<close>

lemma sint_diff_no_wrap:
  fixes e s :: u16
  assumes "\<bar>uint e - uint s\<bar> \<le> 32767"
  shows "sint (e - s) = uint e - uint s"
proof -
  have "e - s = word_of_int (uint e - uint s)"
    by simp
  then have "sint (e - s) = signed_take_bit 15 (uint e - uint s)"
    by (simp only: sint_sbintrunc') simp
  also have "\<dots> = uint e - uint s"
  proof -
    have "- 32768 \<le> uint e - uint s \<and> uint e - uint s < 32768"
      using assms by arith
    then show ?thesis by (simp add: signed_take_bit_int_eq_self_iff)
  qed
  finally show ?thesis .
qed

lemma control_loop_update_no_wrap:
  assumes "\<bar>uint (elevation_mm c) - uint (setpoint_mm c)\<bar> \<le> 32767"
  shows "control_loop_update c =
     (if \<bar>uint (elevation_mm c) - uint (setpoint_mm c)\<bar> \<le> uint (setpoint_deadband c)
      then CONTROL_ERROR_DEADBAND
      else if setpoint_mm c < elevation_mm c then CONTROL_ERROR_POSITIVE
      else CONTROL_ERROR_NEGATIVE)"
  using sint_diff_no_wrap [OF assms]
  by (simp add: control_loop_update_def Let_def word_less_def)

text \<open>
  Across the wrap the signed difference is off by 65536. As long as the clamped setpoint
  is at least the deadband and at most 65535 minus the deadband, as under the limits
  50 and 305, no reading is then taken for one inside the deadband.
\<close>

lemma sint_u16_cases:
  fixes x :: u16
  shows "(sint x = uint x \<or> sint x = uint x - 65536) \<and> - 32768 \<le> sint x \<and> sint x < 32768"
proof -
  have m: "uint x = sint x mod 65536"
    using uint_sint [of x] by (simp add: take_bit_eq_mod)
  have lo: "- 32768 \<le> sint x" using sint_greater_eq [of x] by simp
  have hi: "sint x < 32768" using sint_less [of x] by simp
  have "sint x mod 65536 = (if sint x < 0 then sint x + 65536 else sint x)"
  proof (cases "sint x < 0")
    case True
    then have "(sint x + 65536) mod 65536 = sint x + 65536"
      using lo by (intro mod_pos_pos_trivial) simp_all
    then show ?thesis using True by simp
  next
    case False
    then have "sint x mod 65536 = sint x"
      using hi by (intro mod_pos_pos_trivial) simp_all
    then show ?thesis using False by simp
  qed
  with m lo hi show ?thesis by (auto split: if_splits)
qed

lemma wrap_arith:
  fixes x u ue us db :: int
  assumes "u = ue - us \<or> u = ue - us + 65536"
    and "x = u \<or> x = u - 65536"
    and "0 \<le> u" "u < 65536" "- 32768 \<le> x" "x < 32768"
    and "0 \<le> ue" "ue < 65536" "db \<le> us" "us + db \<le> 65535" "0 \<le> db"
  shows "\<bar>x\<bar> \<le> db \<longleftrightarrow> \<bar>ue - us\<bar> \<le> db"
  using assms by (elim disjE) (auto simp: abs_le_iff)

lemma deadband_exact_within_limits:
  assumes "uint (setpoint_deadband c) \<le> uint (setpoint_mm c)"
    and "uint (setpoint_mm c) + uint (setpoint_deadband c) \<le> 65535"
  shows "control_loop_update c = CONTROL_ERROR_DEADBAND \<longleftrightarrow>
           \<bar>uint (elevation_mm c) - uint (setpoint_mm c)\<bar> \<le> uint (setpoint_deadband c)"
proof -
  let ?e = "elevation_mm c" and ?s = "setpoint_mm c"
  have d: "uint (?e - ?s) = uint ?e - uint ?s \<or> uint (?e - ?s) = uint ?e - uint ?s + 65536"
    using uint_sub_if' [of ?e ?s] by (simp split: if_splits)
  have e: "uint ?e < 65536"
    using uint_lt2p [of ?e] by simp
  have u: "uint (?e - ?s) < 65536"
    using uint_lt2p [of "?e - ?s"] by simp
  have x: "sint (?e - ?s) = uint (?e - ?s) \<or> sint (?e - ?s) = uint (?e - ?s) - 65536"
    "- 32768 \<le> sint (?e - ?s)" "sint (?e - ?s) < 32768"
    using sint_u16_cases [of "?e - ?s"] by simp_all
  have "\<bar>sint (?e - ?s)\<bar> \<le> uint (setpoint_deadband c) \<longleftrightarrow>
        \<bar>uint ?e - uint ?s\<bar> \<le> uint (setpoint_deadband c)"
    by (rule wrap_arith [OF d x(1) _ u x(2) x(3) _ e assms]) simp_all
  then show ?thesis
    by (simp add: control_loop_update_def Let_def)
qed

lemma Update_result_fields:
  "elevation_mm (snd (snd (ColumnManager_Update e s (w, c)))) = e"
  "setpoint_mm (snd (snd (ColumnManager_Update e s (w, c)))) = setpoint_mm (Update_store_inputs e s c)"
  "setpoint_deadband (snd (snd (ColumnManager_Update e s (w, c)))) = setpoint_deadband c"
  "control_error_state (snd (snd (ColumnManager_Update e s (w, c))))
     = control_loop_update (Update_manual_requests w (Update_store_inputs e s c))"
  by (simp_all add: ColumnManager_Update_def Let_def Update_switch_def
        split: COLUMN_STATE_TYPE_T.splits)

lemma Update_from_idle:
  assumes "col_state c = COLUMN_IDLE" and "regulator_enable c"
    and "\<not> col_request_manual_fill c" and "\<not> request_manual_drain c"
  shows "col_state (snd (snd (ColumnManager_Update e s (w, c)))) =
     (case control_error_state (snd (snd (ColumnManager_Update e s (w, c)))) of
        CONTROL_ERROR_POSITIVE \<Rightarrow> COLUMN_FILL_ACTIVE
      | CONTROL_ERROR_NEGATIVE \<Rightarrow> COLUMN_DRAIN_ACTIVE
      | CONTROL_ERROR_DEADBAND \<Rightarrow> COLUMN_IDLE)"
  using assms
  by (simp add: ColumnManager_Update_def Let_def Update_switch_def
        split: CONTROL_ERROR_STATE_TYPE_T.splits)

subsection \<open>Leaving the active, manual and error states\<close>

text \<open>
  The branch taken when the regulator has been disabled in an active state writes no pin;
  the end of a manual actuation keeps the time in state; without a manual request
  \<open>COLUMN_ERROR_STATE\<close> is never left.
\<close>

lemma disable_in_active_state:
  assumes "col_state c = COLUMN_FILL_ACTIVE \<or> col_state c = COLUMN_DRAIN_ACTIVE"
    and "\<not> regulator_enable c"
    and "\<not> col_request_manual_fill c" and "\<not> request_manual_drain c"
  shows "col_state (snd (snd (ColumnManager_Update e s (w, c)))) =
           (if col_state c = COLUMN_FILL_ACTIVE then COLUMN_FILL_SETTLE else COLUMN_DRAIN_SETTLE)"
    and "pin_out (fst (snd (ColumnManager_Update e s (w, c)))) = pin_out w"
  using assms by (auto simp: ColumnManager_Update_def Let_def Update_switch_def)

lemma manual_end_keeps_timer:
  assumes "col_state c = COLUMN_MANUAL_FILL \<and>
             elapsed w (col_time_in_current_state c) \<ge> col_manual_fill_period c \<or>
           col_state c = COLUMN_MANUAL_DRAIN \<and>
             elapsed w (col_time_in_current_state c) \<ge> manual_drain_period c"
    and "\<not> col_request_manual_fill c" and "\<not> request_manual_drain c"
  shows "col_state (snd (snd (ColumnManager_Update e s (w, c)))) = COLUMN_IDLE"
    and "col_time_in_current_state (snd (snd (ColumnManager_Update e s (w, c))))
           = col_time_in_current_state c"
  using assms by (auto simp: ColumnManager_Update_def Let_def Update_switch_def)

lemma error_state_final:
  assumes "col_state c = COLUMN_ERROR_STATE"
    and "\<not> col_request_manual_fill c" and "\<not> request_manual_drain c"
  shows "col_state (snd (snd (ColumnManager_Update e s (w, c)))) = COLUMN_ERROR_STATE"
  using assms by (simp add: ColumnManager_Update_def Let_def Update_switch_def)

section \<open>ColumnManager: the concrete runs\<close>

lemmas column_eval_defs =
  example_world_def at_millis_def example_column_def
  ColumnManager_init_def ColumnManager_Update_def ColumnManager_Set_Regulator_Enable_def
  ColumnManager_Manual_Fill_def Manual_Drain_def Set_Elevation_Reading_MM_def
  Update_store_inputs_def Update_manual_requests_def Update_switch_def control_loop_update_def
  start_filling_def start_draining_def stop_flows_def
  digitalWrite_def elapsed_def restart_def
  ColumnManager_Get_State_def Get_Control_Error_State_def Get_Target_Setpoint_MM_def
  FAULT_SET_def FAULT_ACTIVE_def FAULT_SX1509_IO_EXPANDER_INIT_FAIL_def

lemma column_filling_eval:
  "column_filling =
     (\<lparr>millis = 20, system_faults = 0, pin_out = (\<lambda>pin. pin = 15), pin_in = (\<lambda>pin. HIGH)\<rparr>,
      \<lparr>feed_valve_actuator_pin = 15, drain_valve_actuator_pin = 11,
       column_num = 1, setpoint_mm = 150, elevation_lower_limit = 50,
       elevation_upper_limit = 305, elevation_mm = 300, setpoint_deadband = 4,
       regulator_enable = True, logging_enable = False,
       col_state = COLUMN_FILL_ACTIVE, col_time_in_current_state = 10,
       manual_drain_period = 2000, col_manual_fill_period = 2000,
       drain_dwell_period = 1000, fill_dwell_period = 1000,
       max_column_drain_period = 60000, max_column_fill_period = 60000,
       col_request_manual_fill = False, request_manual_drain = False,
       control_error_state = CONTROL_ERROR_POSITIVE\<rparr>)"
  by (simp add: column_filling_def column_eval_defs Let_def fun_eq_iff)

lemma column_manual_filling_eval:
  "column_manual_filling =
     (\<lparr>millis = 10, system_faults = 0, pin_out = (\<lambda>pin. pin = 15), pin_in = (\<lambda>pin. HIGH)\<rparr>,
      \<lparr>feed_valve_actuator_pin = 15, drain_valve_actuator_pin = 11,
       column_num = 1, setpoint_mm = 150, elevation_lower_limit = 50,
       elevation_upper_limit = 305, elevation_mm = 150, setpoint_deadband = 4,
       regulator_enable = False, logging_enable = False,
       col_state = COLUMN_MANUAL_FILL, col_time_in_current_state = 10,
       manual_drain_period = 2000, col_manual_fill_period = 150,
       drain_dwell_period = 1000, fill_dwell_period = 1000,
       max_column_drain_period = 60000, max_column_fill_period = 60000,
       col_request_manual_fill = False, request_manual_drain = False,
       control_error_state = CONTROL_ERROR_DEADBAND\<rparr>)"
  by (simp add: column_manual_filling_def column_eval_defs Let_def fun_eq_iff)

lemma column_manual_filling_expander_failed_eval:
  "column_manual_filling_expander_failed =
     (\<lparr>millis = 10, system_faults = 32768, pin_out = (\<lambda>pin. pin = 15), pin_in = (\<lambda>pin. HIGH)\<rparr>,
      \<lparr>feed_valve_actuator_pin = 15, drain_valve_actuator_pin = 11,
       column_num = 1, setpoint_mm = 150, elevation_lower_limit = 50,
       elevation_upper_limit = 305, elevation_mm = 150, setpoint_deadband = 4,
       regulator_enable = False, logging_enable = False,
       col_state = COLUMN_MANUAL_FILL, col_time_in_current_state = 10,
       manual_drain_period = 2000, col_manual_fill_period = 150,
       drain_dwell_period = 1000, fill_dwell_period = 1000,
       max_column_drain_period = 60000, max_column_fill_period = 60000,
       col_request_manual_fill = False, request_manual_drain = False,
       control_error_state = CONTROL_ERROR_DEADBAND\<rparr>)"
  by (simp add: column_manual_filling_expander_failed_def column_eval_defs Let_def fun_eq_iff)

section \<open>ColumnManager: the control error\<close>

text \<open>
  Claim C1 as stated fails: \<open>CONTROL_ERROR_POSITIVE\<close> is the result for a reading above
  the setpoint, not below it. With a reading of 100 mm under a setpoint of 150 mm the
  control error is \<open>CONTROL_ERROR_NEGATIVE\<close>, and the enabled column leaves
  \<open>COLUMN_IDLE\<close> for \<open>COLUMN_DRAIN_ACTIVE\<close>.
\<close>

theorem reading_below_setpoint_drains:
  "(let (busy, w, c) = column_below_setpoint_call in
      ColumnManager_Get_State (snd example_column) = COLUMN_IDLE \<and>
      elevation_mm c < Get_Target_Setpoint_MM c \<and>
      \<bar>uint (elevation_mm c) - uint (Get_Target_Setpoint_MM c)\<bar> > uint (setpoint_deadband c) \<and>
      Get_Control_Error_State c \<noteq> CONTROL_ERROR_POSITIVE \<and>
      Get_Control_Error_State c = CONTROL_ERROR_NEGATIVE \<and>
      ColumnManager_Get_State c \<noteq> COLUMN_FILL_ACTIVE \<and>
      ColumnManager_Get_State c = COLUMN_DRAIN_ACTIVE)"
  unfolding column_below_setpoint_call_def
  by (simp add: column_eval_defs Let_def)

text \<open>
  Claim C1 as amended. The elevation is the distance reading of the sensor above the
  column, so a larger reading is a lower water level. Whenever the reading and the
  clamped setpoint are less than 32768 mm apart, the control error that \<open>Update\<close>
  stores is \<open>CONTROL_ERROR_POSITIVE\<close> exactly when the reading is above the setpoint by
  more than the deadband, and \<open>CONTROL_ERROR_NEGATIVE\<close> exactly when it is below the
  setpoint by more than the deadband. From \<open>COLUMN_IDLE\<close>, with the regulator enabled
  and no manual request pending, the first leads to \<open>COLUMN_FILL_ACTIVE\<close> and the
  second to \<open>COLUMN_DRAIN_ACTIVE\<close>.
\<close>

theorem control_error_follows_reading:
  assumes "\<bar>uint e - uint (setpoint_mm (Update_store_inputs e s c))\<bar> \<le> 32767"
  shows "(let c' = snd (snd (ColumnManager_Update e s (w, c)));
              sp = setpoint_mm (Update_store_inputs e s c);
              outside = (\<bar>uint e - uint sp\<bar> > uint (setpoint_deadband c))
          in elevation_mm c' = e \<and>
             Get_Target_Setpoint_MM c' = sp \<and>
             (Get_Control_Error_State c' = CONTROL_ERROR_POSITIVE \<longleftrightarrow> e > sp \<and> outside) \<and>
             (Get_Control_Error_State c' = CONTROL_ERROR_NEGATIVE \<longleftrightarrow> e < sp \<and> outside) \<and>
             (ColumnManager_Get_State c = COLUMN_IDLE \<and> regulator_enable c \<and>
              \<not> col_request_manual_fill c \<and> \<not> request_manual_drain c \<longrightarrow>
                (e > sp \<and> outside \<longrightarrow> ColumnManager_Get_State c' = COLUMN_FILL_ACTIVE) \<and>
                (e < sp \<and> outside \<longrightarrow> ColumnManager_Get_State c' = COLUMN_DRAIN_ACTIVE)))"
proof -
  let ?c = "Update_manual_requests w (Update_store_inputs e s c)"
  have "\<bar>uint (elevation_mm ?c) - uint (setpoint_mm ?c)\<bar> \<le> 32767"
    using assms by simp
  from control_loop_update_no_wrap [OF this]
  have err: "control_error_state (snd (snd (ColumnManager_Update e s (w, c)))) =
     (if \<bar>uint e - uint (setpoint_mm (Update_store_inputs e s c))\<bar> \<le> uint (setpoint_deadband c)
      then CONTROL_ERROR_DEADBAND
      else if setpoint_mm (Update_store_inputs e s c) < e then CONTROL_ERROR_POSITIVE
      else CONTROL_ERROR_NEGATIVE)"
    by (simp add: Update_result_fields)
  have ne: "e \<noteq> setpoint_mm (Update_store_inputs e s c)"
    if "\<not> \<bar>uint e - uint (setpoint_mm (Update_store_inputs e s c))\<bar> \<le> uint (setpoint_deadband c)"
    using that by auto
  show ?thesis
    using err ne Update_from_idle [of c e s w]
    by (auto simp: Let_def Update_result_fields Get_Target_Setpoint_MM_def
          Get_Control_Error_State_def ColumnManager_Get_State_def)
qed

theorem control_error_follows_reading_witness:
  "\<bar>uint (300 :: u16) - uint (setpoint_mm (Update_store_inputs 300 150
       (ColumnManager_Set_Regulator_Enable True (snd example_column))))\<bar> \<le> 32767 \<and>
   Get_Control_Error_State
     (snd (snd (ColumnManager_Update 300 150
        (at_millis 10 (fst example_column),
         ColumnManager_Set_Regulator_Enable True (snd example_column)))))
     = CONTROL_ERROR_POSITIVE \<and>
   ColumnManager_Get_State
     (snd (snd (ColumnManager_Update 300 150
        (at_millis 10 (fst example_column),
         ColumnManager_Set_Regulator_Enable True (snd example_column)))))
     = COLUMN_FILL_ACTIVE"
proof -
  let ?c = "ColumnManager_Set_Regulator_Enable True (snd example_column)"
  have sp: "setpoint_mm (Update_store_inputs 300 150 ?c) = 150"
    by (simp add: example_column_def ColumnManager_init_def
          ColumnManager_Set_Regulator_Enable_def Update_store_inputs_def Let_def)
  have h: "\<bar>uint (300 :: u16) - uint (setpoint_mm (Update_store_inputs 300 150 ?c))\<bar> \<le> 32767"
    by (simp add: sp)
  have idle: "ColumnManager_Get_State ?c = COLUMN_IDLE \<and> regulator_enable ?c \<and>
      \<not> col_request_manual_fill ?c \<and> \<not> request_manual_drain ?c \<and> setpoint_deadband ?c = 4"
    by (simp add: example_column_def ColumnManager_init_def ColumnManager_Get_State_def
          ColumnManager_Set_Regulator_Enable_def Let_def)
  show ?thesis
    using h idle control_error_follows_reading [OF h, of "at_millis 10 (fst example_column)"]
    by (simp add: Let_def sp)
qed

text \<open>
  Claim C7, evaluated on a column whose lower setpoint limit is 0: with a reading of
  65535 mm and a setpoint of 0 mm the exact distance is 65535 mm, far outside the
  deadband of 4 mm, but the 16-bit signed difference is -1 and the control error is
  \<open>CONTROL_ERROR_DEADBAND\<close>.
\<close>

theorem deadband_reported_across_wrap:
  "(let (busy, w, c) = column_wrap_call in
      elevation_mm c = 65535 \<and>
      Get_Target_Setpoint_MM c = 0 \<and>
      setpoint_deadband c = 4 \<and>
      \<not> \<bar>uint (elevation_mm c) - uint (Get_Target_Setpoint_MM c)\<bar> \<le> uint (setpoint_deadband c) \<and>
      Get_Control_Error_State c = CONTROL_ERROR_DEADBAND)"
  unfolding column_wrap_call_def
  by (simp add: column_eval_defs Let_def)

section \<open>ColumnManager: timeouts, disabling and the time in state\<close>

text \<open>
  Claim C3, evaluated on the concrete run: the enabled column has been in
  \<open>COLUMN_FILL_ACTIVE\<close> for exactly the maximum fill period, the control error is
  still positive. \<open>Update\<close> closes both valves and enters \<open>COLUMN_ERROR_STATE\<close>, and
  the fault bitmap is still empty afterwards.
\<close>

theorem column_fill_timeout_sets_no_fault:
  "(let (busy, w, c) = column_fill_timeout_call in
      ColumnManager_Get_State (snd column_filling) = COLUMN_FILL_ACTIVE \<and>
      regulator_enable (snd column_filling) \<and>
      elapsed (at_millis 60010 (fst column_filling)) (col_time_in_current_state (snd column_filling))
        = max_column_fill_period (snd column_filling) \<and>
      Get_Control_Error_State c = CONTROL_ERROR_POSITIVE \<and>
      ColumnManager_Get_State c = COLUMN_ERROR_STATE \<and>
      pin_out w (feed_valve_actuator_pin c) = LOW \<and>
      pin_out w (drain_valve_actuator_pin c) = LOW \<and>
      system_faults w = 0)"
  unfolding column_fill_timeout_call_def column_filling_eval
  by (simp add: column_eval_defs Let_def)

text \<open>
  Claim C5, evaluated on the concrete run: the column is in \<open>COLUMN_FILL_ACTIVE\<close> with
  the feed valve open when the regulator is disabled. The next \<open>Update\<close> moves it to
  \<open>COLUMN_FILL_SETTLE\<close> and returns with the feed valve still commanded high.
\<close>

theorem column_disable_leaves_valve_open:
  "(let (busy, w, c) = column_disabled_call in
      ColumnManager_Get_State (snd column_filling) = COLUMN_FILL_ACTIVE \<and>
      pin_out (fst column_filling) (feed_valve_actuator_pin (snd column_filling)) = HIGH \<and>
      ColumnManager_Get_State c = COLUMN_FILL_SETTLE \<and>
      pin_out w (feed_valve_actuator_pin c) = HIGH)"
  unfolding column_disabled_call_def column_filling_eval
  by (simp add: column_eval_defs Let_def)

text \<open>
  Claim C9, evaluated on the concrete run: a manual fill of 150 ms started at time 10
  ends in the \<open>Update\<close> at time 200. That call moves the column from
  \<open>COLUMN_MANUAL_FILL\<close> to \<open>COLUMN_IDLE\<close>, and the time in state reads 190 ms after
  it, not 0.
\<close>

theorem column_manual_fill_end_keeps_timer:
  "(let (busy, w, c) = column_manual_fill_end_call in
      ColumnManager_Get_State (snd column_manual_filling) = COLUMN_MANUAL_FILL \<and>
      ColumnManager_Get_State c = COLUMN_IDLE \<and>
      elapsed w (col_time_in_current_state c) = 190 \<and>
      elapsed w (col_time_in_current_state c) \<noteq> 0)"
  unfolding column_manual_fill_end_call_def column_manual_filling_eval
  by (simp add: column_eval_defs Let_def)

section \<open>ColumnManager: the two valves\<close>

text \<open>
  What holds of the two valves. For a column whose feed and drain valves are on
  different pins, not both high when it is constructed, the two valves are never both
  commanded high after any sequence of calls, \<open>Update\<close> calls included. And from every
  state in which \<open>FAULT_SX1509_IO_EXPANDER_INIT_FAIL\<close> is not active, both valves are
  commanded low after three \<open>Update\<close> calls with the reading at the setpoint, the
  second made once the time in state has run to its largest value.
\<close>

lemma valves_exclusive_and_stoppable:
  "(\<not> (pin_out w0 feed = HIGH \<and> pin_out w0 drain = HIGH) \<and> feed \<noteq> drain \<longrightarrow>
      valves_exclusive (column_run evs (ColumnManager_init num feed drain lo hi w0))) \<and>
   (\<not> FAULT_ACTIVE FAULT_SX1509_IO_EXPANDER_INIT_FAIL (system_faults w) \<longrightarrow>
      pin_out (fst (three_updates_at_setpoint s (w, c))) (feed_valve_actuator_pin c) = LOW \<and>
      pin_out (fst (three_updates_at_setpoint s (w, c))) (drain_valve_actuator_pin c) = LOW)"
proof (intro conjI impI)
  assume a: "\<not> (pin_out w0 feed = HIGH \<and> pin_out w0 drain = HIGH) \<and> feed \<noteq> drain"
  then have "valves_exclusive (ColumnManager_init num feed drain lo hi w0)"
    by (intro ColumnManager_init_exclusive) simp
  moreover have "feed_valve_actuator_pin (snd (ColumnManager_init num feed drain lo hi w0))
      \<noteq> drain_valve_actuator_pin (snd (ColumnManager_init num feed drain lo hi w0))"
    using a by (simp add: ColumnManager_init_pins_fields)
  ultimately show "valves_exclusive (column_run evs (ColumnManager_init num feed drain lo hi w0))"
    by (intro column_run_exclusive)
next
  assume "\<not> FAULT_ACTIVE FAULT_SX1509_IO_EXPANDER_INIT_FAIL (system_faults w)"
  then show "pin_out (fst (three_updates_at_setpoint s (w, c))) (feed_valve_actuator_pin c) = LOW"
    by (rule three_updates_stop(1))
next
  assume "\<not> FAULT_ACTIVE FAULT_SX1509_IO_EXPANDER_INIT_FAIL (system_faults w)"
  then show "pin_out (fst (three_updates_at_setpoint s (w, c))) (drain_valve_actuator_pin c) = LOW"
    by (rule three_updates_stop(2))
qed

text \<open>
  The hour column of the concrete run, filling with the feed valve open: its valves are
  exclusive, and three calls at the setpoint close both.
\<close>

lemma valves_exclusive_and_stoppable_example:
  "\<not> (pin_out example_world 15 = HIGH \<and> pin_out example_world 11 = HIGH) \<and>
   (15 :: u8) \<noteq> 11 \<and>
   valves_exclusive column_filling \<and>
   pin_out (fst column_filling) 15 = HIGH \<and>
   \<not> FAULT_ACTIVE FAULT_SX1509_IO_EXPANDER_INIT_FAIL (system_faults (fst column_filling)) \<and>
   pin_out (fst (three_updates_at_setpoint 150 column_filling)) 15 = LOW \<and>
   pin_out (fst (three_updates_at_setpoint 150 column_filling)) 11 = LOW"
proof -
  have w0: "\<not> (pin_out example_world 15 = HIGH \<and> pin_out example_world 11 = HIGH)"
    by (simp add: example_world_def)
  have nf: "\<not> FAULT_ACTIVE FAULT_SX1509_IO_EXPANDER_INIT_FAIL (system_faults (fst column_filling))"
    by (simp add: column_filling_eval FAULT_ACTIVE_def FAULT_SX1509_IO_EXPANDER_INIT_FAIL_def)
  have pins: "feed_valve_actuator_pin (snd column_filling) = 15"
    "drain_valve_actuator_pin (snd column_filling) = 11"
    "pin_out (fst column_filling) 15 = HIGH"
    by (simp_all add: column_filling_eval)
  note run = valves_exclusive_and_stoppable
        [of example_world 15 11 "[Set_Enable True, Update_At 10 300 150, Update_At 20 300 150]"
            1 50 305 "fst column_filling" 150 "snd column_filling"]
  have ex: "valves_exclusive column_filling"
    using run w0 by (simp add: column_filling_def example_column_def)
  have stop: "pin_out (fst (three_updates_at_setpoint 150 column_filling)) 15 = LOW \<and>
      pin_out (fst (three_updates_at_setpoint 150 column_filling)) 11 = LOW"
    using run nf pins by simp
  show ?thesis
    using w0 nf pins ex stop by simp
qed

text \<open>
  While the fault is active the two guarded commands write no pin; \<open>start_filling\<close>,
  which has no guard, is then the only command that does.
\<close>

lemma guarded_commands_write_nothing:
  assumes "FAULT_ACTIVE FAULT_SX1509_IO_EXPANDER_INIT_FAIL (system_faults w)"
  shows "pin_out (stop_flows c w) = pin_out w" and "pin_out (start_draining c w) = pin_out w"
  using assms by (simp_all add: valve_command_pins)

text \<open>
  Claim C4, evaluated on a column constructed while
  \<open>FAULT_SX1509_IO_EXPANDER_INIT_FAIL\<close> is active, on which a manual fill of 150 ms is
  requested and started by the \<open>Update\<close> at time 10. \<open>start_filling\<close> lacks the guard
  that \<open>start_draining\<close> and \<open>stop_flows\<close> carry, so that call opens the feed valve
  although the fault is active. The two valves are not both high, but the stop-both
  command is not reachable from this state: after no sequence of later calls is the feed
  valve commanded low.
\<close>

theorem stop_both_unreachable_after_expander_failure:
  "FAULT_ACTIVE FAULT_SX1509_IO_EXPANDER_INIT_FAIL
     (system_faults (fst column_manual_filling_expander_failed)) \<and>
   pin_out (fst column_manual_filling_expander_failed)
     (feed_valve_actuator_pin (snd column_manual_filling_expander_failed)) = HIGH \<and>
   pin_out (fst column_manual_filling_expander_failed)
     (drain_valve_actuator_pin (snd column_manual_filling_expander_failed)) = LOW \<and>
   \<not> (\<exists>evs. pin_out (fst (column_run evs column_manual_filling_expander_failed))
               (feed_valve_actuator_pin (snd (column_run evs column_manual_filling_expander_failed)))
             = LOW)"
proof -
  have stuck: "feed_stuck_open column_manual_filling_expander_failed"
    unfolding column_manual_filling_expander_failed_eval
    by (simp add: feed_stuck_open_def FAULT_ACTIVE_def FAULT_SX1509_IO_EXPANDER_INIT_FAIL_def)
  have drain: "pin_out (fst column_manual_filling_expander_failed)
     (drain_valve_actuator_pin (snd column_manual_filling_expander_failed)) = LOW"
    unfolding column_manual_filling_expander_failed_eval by simp
  have "feed_stuck_open (column_run evs column_manual_filling_expander_failed)" for evs
    using stuck by (rule column_run_stuck)
  then show ?thesis
    using stuck drain by (simp add: feed_stuck_open_def)
qed

end
